theory Spec2Isabelle
  imports Main
begin

section \<open>Data model of the adapters\<close>

text \<open>
  The three adapter bases (the Compound-optimizer pool adapter, the Aave-optimizer pool
  adapter and the vault adapter) read contract state through a JSON-RPC provider and
  reshape it. Addresses are JavaScript strings, amounts are bigints (unbounded
  integers), a rejected promise is the left summand of a sum type.
\<close>

type_synonym address = string

text \<open>\<open>blockNumber?: number\<close>: the optional block tag of a contract read.\<close>

type_synonym blockTag = "nat option"

text \<open>
  Every rejection the adapters see is an \<open>Error\<close> object: \<open>Error msg\<close> is
  \<open>new Error(msg)\<close>, \<open>NotImplementedError\<close> the error class of that name,
  \<open>RangeError\<close> and \<open>TypeError\<close> the language's own errors (a negative bigint
  exponent, a \<open>BigInt\<close> of an infinite number, a property read on \<open>undefined\<close>),
  and \<open>CallException\<close> a failed provider or contract call.
\<close>

datatype error =
    Error string
  | NotImplementedError
  | RangeError
  | TypeError
  | CallException

text \<open>
  \<open>if (err)\<close> tests the rejection reason for truthiness. Every reason above is an
  object, and an object is truthy.
\<close>

fun truthy :: "error \<Rightarrow> bool" where
  "truthy (Error _) = True"
| "truthy NotImplementedError = True"
| "truthy RangeError = True"
| "truthy TypeError = True"
| "truthy CallException = True"

datatype PositionType = Supply | Borrow

datatype TokenType = Protocol | Underlying

record Erc20Metadata =
  address :: address
  name :: string
  symbol :: string
  decimals :: nat

record TokenBalance = Erc20Metadata +
  balanceRaw :: int

text \<open>
  An underlying entry: the token's metadata, \<open>balanceRaw\<close> and \<open>type\<close> (the field
  \<open>tokenType\<close>).
\<close>

record UnderlyingBalance = TokenBalance +
  tokenType :: TokenType

text \<open>
  The adapters build an underlying entry as \<open>{...underlyingToken, balanceRaw, type}\<close>.
  When \<open>underlyingToken\<close> is \<open>undefined\<close> the spread adds nothing and the object has
  the two other fields only: \<open>Bare balanceRaw type\<close>.
\<close>

datatype UnderlyingEntry = Full UnderlyingBalance | Bare int TokenType

fun entryBalanceRaw :: "UnderlyingEntry \<Rightarrow> int" where
  "entryBalanceRaw (Full u) = balanceRaw u"
| "entryBalanceRaw (Bare raw t) = raw"

text \<open>
  A position: the fields of a token balance with its type, plus the list \<open>tokens\<close> of
  underlying entries. The pool adapters also spread \<open>balance\<close> into it, the vault
  adapter adds \<open>tokenId\<close>.
\<close>

record ProtocolPosition = UnderlyingBalance +
  tokens :: "UnderlyingEntry list"

record PoolPosition = ProtocolPosition +
  balance :: int

record VaultPosition = ProtocolPosition +
  tokenId :: address

record PoolMetadata =
  protocolToken :: Erc20Metadata
  underlyingToken :: Erc20Metadata

text \<open>
  The metadata mapping is a \<open>Record<string, {protocolToken, underlyingToken}>\<close>: a
  plain object, created as \<open>{}\<close>. \<open>own\<close> holds its own properties in the order
  they were created. \<open>inheritsFrom\<close> is \<open>None\<close> while
  the object's prototype is \<open>Object.prototype\<close>, and \<open>Some v\<close> once the entry \<open>v\<close>
  was assigned under the name \<open>__proto__\<close>, which makes \<open>v\<close> the prototype instead
  of creating a property.
\<close>

record Metadata =
  own :: "(string \<times> PoolMetadata) list"
  inheritsFrom :: "PoolMetadata option"

definition emptyObject :: Metadata where
  "emptyObject = \<lparr>own = [], inheritsFrom = None\<rparr>"

text \<open>The property names every plain object inherits from \<open>Object.prototype\<close>.\<close>

definition ObjectPrototypeNames :: "string list" where
  "ObjectPrototypeNames =
     [''constructor'', ''__defineGetter__'', ''__defineSetter__'', ''hasOwnProperty'',
      ''__lookupGetter__'', ''__lookupSetter__'', ''isPrototypeOf'',
      ''propertyIsEnumerable'', ''toString'', ''valueOf'', ''__proto__'',
      ''toLocaleString'']"

text \<open>
  The read \<open>obj[k]\<close>. An own property gives its entry. The name \<open>__proto__\<close> gives
  the prototype: the entry assigned under that name, or \<open>Object.prototype\<close>. Any
  other inherited name gives an inherited value (a function of \<open>Object.prototype\<close>,
  or one of the two tokens of the entry that was made the prototype). \<open>Foreign\<close> is
  such a value: it is truthy and has neither a \<open>protocolToken\<close> nor an
  \<open>underlyingToken\<close>. \<open>None\<close> is \<open>undefined\<close>.
\<close>

datatype PoolLookup = Entry PoolMetadata | Foreign

definition getProp :: "Metadata \<Rightarrow> string \<Rightarrow> PoolLookup option" where
  "getProp obj k =
     (case map_of (own obj) k of
        Some v \<Rightarrow> Some (Entry v)
      | None \<Rightarrow>
          if k = ''__proto__''
          then (case inheritsFrom obj of Some v \<Rightarrow> Some (Entry v) | None \<Rightarrow> Some Foreign)
          else if List.member ObjectPrototypeNames k then Some Foreign
          else (case inheritsFrom obj of
                  None \<Rightarrow> None
                | Some v \<Rightarrow>
                    if List.member [''protocolToken'', ''underlyingToken''] k
                    then Some Foreign
                    else None))"

text \<open>
  The destructurings \<open>const { protocolToken } = x\<close> and
  \<open>const { underlyingToken } = x\<close>; \<open>None\<close> is \<open>undefined\<close>.
\<close>

fun protocolTokenOf :: "PoolLookup \<Rightarrow> Erc20Metadata option" where
  "protocolTokenOf (Entry pm) = Some (protocolToken pm)"
| "protocolTokenOf Foreign = None"

fun underlyingTokenOf :: "PoolLookup \<Rightarrow> Erc20Metadata option" where
  "underlyingTokenOf (Entry pm) = Some (underlyingToken pm)"
| "underlyingTokenOf Foreign = None"

text \<open>
  The assignment \<open>obj[k] = v\<close>: an own property keeps its place and takes the value;
  otherwise the name \<open>__proto__\<close> sets the prototype, and any other name creates a
  property after the existing ones.
\<close>

fun setOwn :: "('k \<times> 'v) list \<Rightarrow> 'k \<Rightarrow> 'v \<Rightarrow> ('k \<times> 'v) list" where
  "setOwn [] k v = [(k, v)]"
| "setOwn ((k', v') # m) k v =
     (if k' = k then (k, v) # m else (k', v') # setOwn m k v)"

definition setProp :: "Metadata \<Rightarrow> string \<Rightarrow> PoolMetadata \<Rightarrow> Metadata" where
  "setProp obj k v =
     (if map_of (own obj) k \<noteq> None then obj\<lparr>own := setOwn (own obj) k v\<rparr>
      else if k = ''__proto__'' then obj\<lparr>inheritsFrom := Some v\<rparr>
      else obj\<lparr>own := setOwn (own obj) k v\<rparr>)"

text \<open>
  \<open>Object.values(obj)\<close> lists the own properties: first those whose name is an array
  index (a decimal numeral without a leading zero, below \<open>2^32 - 1\<close>) by ascending
  index, then the others in the order they were created.
\<close>

definition digitValue :: "char \<Rightarrow> nat option" where
  "digitValue c =
     (let n = (of_char c :: nat) in if 48 \<le> n \<and> n \<le> 57 then Some (n - 48) else None)"

fun decimalValue :: "nat \<Rightarrow> string \<Rightarrow> nat option" where
  "decimalValue acc [] = Some acc"
| "decimalValue acc (c # cs) =
     (case digitValue c of None \<Rightarrow> None | Some d \<Rightarrow> decimalValue (10 * acc + d) cs)"

definition arrayIndex :: "string \<Rightarrow> nat option" where
  "arrayIndex k =
     (case k of
        [] \<Rightarrow> None
      | c # cs \<Rightarrow>
          if c = CHR ''0'' \<and> cs \<noteq> [] then None
          else (case decimalValue 0 k of
                  None \<Rightarrow> None
                | Some n \<Rightarrow> if n < 4294967295 then Some n else None))"

definition Object_values :: "Metadata \<Rightarrow> PoolMetadata list" where
  "Object_values obj =
     map snd
       (sort_key (\<lambda>kv. the (arrayIndex (fst kv)))
          (filter (\<lambda>kv. arrayIndex (fst kv) \<noteq> None) (own obj))
        @ filter (\<lambda>kv. arrayIndex (fst kv) = None) (own obj))"

text \<open>
  \<open>await Promise.all(xs.map(async (x) => f(x)))\<close>: the results in the order of
  \<open>xs\<close>, or a rejection when a callback rejects. The callbacks only read the chain,
  so running them one after the other gives the same results; when several reject, the
  model reports the first in list order.
\<close>

fun promiseAll :: "('a \<Rightarrow> error + 'b) \<Rightarrow> 'a list \<Rightarrow> error + 'b list" where
  "promiseAll f [] = Inr []"
| "promiseAll f (x # xs) =
     (case f x of
        Inl e \<Rightarrow> Inl e
      | Inr y \<Rightarrow> (case promiseAll f xs of Inl e \<Rightarrow> Inl e | Inr ys \<Rightarrow> Inr (y # ys)))"

text \<open>\<open>await\<close> of one promise followed by the rest of the function body.\<close>

definition await :: "error + 'a \<Rightarrow> ('a \<Rightarrow> error + 'b) \<Rightarrow> error + 'b" where
  "await r k = (case r of Inl e \<Rightarrow> Inl e | Inr x \<Rightarrow> k x)"

section \<open>Lookups in the metadata mapping\<close>

text \<open>
  \<open>_fetchPoolMetadata\<close> (Compound base), \<open>fetchPoolMetadata\<close> (Aave base and vault):
  the three bodies are the same up to the fields they log. \<open>bm\<close> is what
  \<open>await this.buildMetadata()\<close> settles to, a mapping or a rejection; within one
  operation every such call settles to the same value (the Compound base serves its
  cache, the product classes serve the metadata file). The test \<open>!poolMetadata\<close>
  holds for \<open>undefined\<close> only: an entry and an inherited value are truthy.
\<close>

definition fetchPoolMetadata :: "error + Metadata \<Rightarrow> address \<Rightarrow> error + PoolLookup" where
  "fetchPoolMetadata bm protocolTokenAddress =
     await bm (\<lambda>md.
       case getProp md protocolTokenAddress of
         None \<Rightarrow> Inl (Error ''Protocol token pool not found'')
       | Some poolMetadata \<Rightarrow> Inr poolMetadata)"

definition getProtocolTokens :: "error + Metadata \<Rightarrow> error + Erc20Metadata list" where
  "getProtocolTokens bm =
     await bm (\<lambda>md. Inr (map protocolToken (Object_values md)))"

text \<open>The pool bases: \<open>fetchProtocolTokenMetadata\<close> and \<open>fetchUnderlyingTokensMetadata\<close>.\<close>

definition fetchProtocolTokenMetadata ::
  "error + Metadata \<Rightarrow> address \<Rightarrow> error + Erc20Metadata option" where
  "fetchProtocolTokenMetadata bm protocolTokenAddress =
     await (fetchPoolMetadata bm protocolTokenAddress) (\<lambda>pm. Inr (protocolTokenOf pm))"

definition fetchUnderlyingTokensMetadata ::
  "error + Metadata \<Rightarrow> address \<Rightarrow> error + Erc20Metadata option list" where
  "fetchUnderlyingTokensMetadata bm protocolTokenAddress =
     await (fetchPoolMetadata bm protocolTokenAddress) (\<lambda>pm. Inr [underlyingTokenOf pm])"

text \<open>The vault adapter: \<open>getProtocolToken\<close> and \<open>getUnderlyingToken\<close>.\<close>

definition getProtocolToken :: "error + Metadata \<Rightarrow> address \<Rightarrow> error + Erc20Metadata option" where
  "getProtocolToken bm protocolTokenAddress =
     await (fetchPoolMetadata bm protocolTokenAddress) (\<lambda>pm. Inr (protocolTokenOf pm))"

definition getUnderlyingToken :: "error + Metadata \<Rightarrow> address \<Rightarrow> error + Erc20Metadata option" where
  "getUnderlyingToken bm protocolTokenAddress =
     await (fetchPoolMetadata bm protocolTokenAddress) (\<lambda>pm. Inr (underlyingTokenOf pm))"

section \<open>The provider and the contracts behind it\<close>

text \<open>
  Event logs as \<open>queryFilter\<close> returns them. \<open>args\<close> is absent on a log that the
  contract interface could not decode. The pool contracts' events carry
  \<open>_poolToken\<close> and \<open>_amount\<close>, the vault's events carry \<open>assets\<close>.
\<close>

record BlockRef =
  blockNumber :: nat
  transactionHash :: string

record PoolEventArgs =
  poolToken :: address
  amount :: int

record VaultEventArgs =
  assets :: int

record PoolEventLog = BlockRef +
  args :: "PoolEventArgs option"

record VaultEventLog = BlockRef +
  vaultArgs :: "VaultEventArgs option"

text \<open>
  A movement: \<open>{protocolToken, tokens, blockNumber, transactionHash}\<close>. Its first two
  fields are \<open>movementToken\<close> and \<open>movementTokens\<close> here, since \<open>protocolToken\<close> and
  \<open>tokens\<close> already name fields of the metadata entry and of a position. The
  protocol token is \<open>None\<close> when the adapter put \<open>undefined\<close> there.
\<close>

record MovementsByBlock = BlockRef +
  movementToken :: "Erc20Metadata option"
  movementTokens :: "UnderlyingEntry list"

text \<open>
  The topic filters the adapters build; \<open>None\<close> is an \<open>undefined\<close> (wildcard)
  argument.
\<close>

datatype PoolFilter =
    Supplied "address option" "address option" "address option"
  | Withdrawn "address option" "address option" "address option"
  | Repaid "address option" "address option" "address option"
  | Borrowed "address option" "address option"

datatype VaultFilter =
    Deposit "address option" "address option"
  | Withdraw "address option" "address option" "address option"

datatype PoolEventType = supplied | withdrawn | repaid | borrowed

datatype VaultEventType = deposit | withdraw

text \<open>One vault creation event of the factory: \<open>event.args[0]\<close> and \<open>event.args[4]\<close>.\<close>

record CreateMetaLQG =
  vault :: address
  underlyingAsset :: address

text \<open>
  The read-only calls the adapters make, each returning its value or a rejection. The
  generated contract bindings, \<open>getTokenMetadata\<close> and the provider are not part of the
  adapters' sources, so they are parameters: a \<open>Provider\<close> is the chain as one adapter
  sees it during one operation. The lens calls return the components the adapters
  destructure; \<open>queryFilter\<close> is the pool contract's, \<open>vaultQueryFilter\<close> takes the
  vault it is connected to, \<open>factoryQueryFilter\<close> is the query for every
  \<open>CreateMetaLQG\<close> event from block 0 to the latest. \<open>completesAt\<close> is the time at
  which the callback started for a market or vault has all its reads answered: where
  callbacks started together write into one object or array as they finish, the writes
  happen in the order of these times, callbacks with the same time in the order they
  were started.
\<close>

record Provider =
  getAllMarkets :: "error + address list"
  getMarketsCreated :: "error + address list"
  underlying :: "address \<Rightarrow> error + address"
  UNDERLYING_ASSET_ADDRESS :: "address \<Rightarrow> error + address"
  getTokenMetadata :: "address \<Rightarrow> error + Erc20Metadata"
  getCurrentSupplyBalanceInOf :: "address \<Rightarrow> address \<Rightarrow> blockTag \<Rightarrow> error + (int \<times> int \<times> int)"
  getCurrentBorrowBalanceInOf :: "address \<Rightarrow> address \<Rightarrow> blockTag \<Rightarrow> error + (int \<times> int \<times> int)"
  getTotalMarketSupply :: "address \<Rightarrow> blockTag \<Rightarrow> error + (int \<times> int)"
  getTotalMarketBorrow :: "address \<Rightarrow> blockTag \<Rightarrow> error + (int \<times> int)"
  exchangeRateStored :: "address \<Rightarrow> blockTag \<Rightarrow> error + int"
  queryFilter :: "PoolFilter \<Rightarrow> nat \<Rightarrow> nat \<Rightarrow> error + PoolEventLog list"
  factoryQueryFilter :: "error + CreateMetaLQG list"
  vaultQueryFilter :: "address \<Rightarrow> VaultFilter \<Rightarrow> nat \<Rightarrow> nat \<Rightarrow> error + VaultEventLog list"
  balanceOf :: "address \<Rightarrow> address \<Rightarrow> blockTag \<Rightarrow> error + int"
  contractDecimals :: "address \<Rightarrow> error + int"
  completesAt :: "address \<Rightarrow> nat"

text \<open>
  Modelled from the spec: the constant \<open>ZERO_ADDRESS\<close> of \<open>core/constants\<close> is not
  among the sources; the spec calls it the sentinel zero address.
\<close>

definition ZERO_ADDRESS :: address where
  "ZERO_ADDRESS = ''0x0000000000000000000000000000000000000000''"

text \<open>
  The callbacks started for the list \<open>xs\<close>, in the order in which they finish;
  \<open>addr\<close> gives the market or vault a callback was started for.
\<close>

definition completionOrder :: "Provider \<Rightarrow> ('a \<Rightarrow> address) \<Rightarrow> 'a list \<Rightarrow> 'a list" where
  "completionOrder p addr xs = sort_key (\<lambda>x. completesAt p (addr x)) xs"

section \<open>Positions on the pool bases\<close>

text \<open>
  \<open>getUnderlyingTokenBalances\<close>, \<open>getPositions\<close>: the same text in the Compound
  base and in the Aave base, each against its own lens contract.
\<close>

definition underlyingEntry :: "Erc20Metadata \<Rightarrow> int \<Rightarrow> UnderlyingBalance" where
  "underlyingEntry ut amt =
     \<lparr>address = address ut, name = name ut, symbol = symbol ut, decimals = decimals ut,
      balanceRaw = amt, tokenType = Underlying\<rparr>"

text \<open>\<open>{...underlyingToken, balanceRaw: amt, type: TokenType.Underlying}\<close>.\<close>

definition spreadUnderlying :: "Erc20Metadata option \<Rightarrow> int \<Rightarrow> UnderlyingEntry" where
  "spreadUnderlying token amt =
     (case token of
        None \<Rightarrow> Bare amt Underlying
      | Some ut \<Rightarrow> Full (underlyingEntry ut amt))"

definition getUnderlyingTokenBalances ::
  "error + Metadata \<Rightarrow> TokenBalance \<Rightarrow> error + UnderlyingEntry list" where
  "getUnderlyingTokenBalances bm protocolTokenBalance =
     await (fetchPoolMetadata bm (address protocolTokenBalance)) (\<lambda>pm.
       let underlyingTokenBalance =
             spreadUnderlying (underlyingTokenOf pm) (balanceRaw protocolTokenBalance)
       in Inr [underlyingTokenBalance])"

definition getBalance ::
  "Provider \<Rightarrow> PositionType \<Rightarrow> Erc20Metadata \<Rightarrow> address \<Rightarrow> blockTag \<Rightarrow> error + int" where
  "getBalance p positionType market userAddress atBlock =
     (if positionType = Supply
      then await (getCurrentSupplyBalanceInOf p (address market) userAddress atBlock)
             (\<lambda>(_, _, balanceRaw). Inr balanceRaw)
      else await (getCurrentBorrowBalanceInOf p (address market) userAddress atBlock)
             (\<lambda>(_, _, balanceRaw). Inr balanceRaw))"

text \<open>
  The callback of the second \<open>map\<close>. Reading \<open>tokenMetadata.name\<close> of an
  \<open>undefined\<close> token metadata is a \<open>TypeError\<close>.
\<close>

definition poolPosition ::
  "error + Metadata \<Rightarrow> address \<times> int \<Rightarrow> error + PoolPosition" where
  "poolPosition bm protocolTokenBalance =
     await (fetchProtocolTokenMetadata bm (fst protocolTokenBalance)) (\<lambda>fetched.
       case fetched of
         None \<Rightarrow> Inl TypeError
       | Some tokenMetadata \<Rightarrow>
           let completeTokenBalance =
                 \<lparr>address = fst protocolTokenBalance, name = name tokenMetadata,
                  symbol = symbol tokenMetadata, decimals = decimals tokenMetadata,
                  balanceRaw = snd protocolTokenBalance\<rparr>
           in await (getUnderlyingTokenBalances bm completeTokenBalance)
                (\<lambda>underlyingTokenBalances.
                   Inr \<lparr>address = fst protocolTokenBalance, name = name tokenMetadata,
                        symbol = symbol tokenMetadata, decimals = decimals tokenMetadata,
                        balanceRaw = snd protocolTokenBalance,
                        tokenType = Protocol,
                        tokens = underlyingTokenBalances,
                        balance = snd protocolTokenBalance\<rparr>))"

definition getPositions ::
  "Provider \<Rightarrow> PositionType \<Rightarrow> error + Metadata \<Rightarrow> address \<Rightarrow> blockTag
     \<Rightarrow> error + PoolPosition list" where
  "getPositions p positionType bm userAddress atBlock =
     await (getProtocolTokens bm) (\<lambda>tokens.
       await (promiseAll
                (\<lambda>market. await (getBalance p positionType market userAddress atBlock)
                   (\<lambda>amount. Inr (address market, amount)))
                tokens)
         (\<lambda>protocolTokensBalances.
            promiseAll (poolPosition bm)
              (filter (\<lambda>protocolTokenBalance. snd protocolTokenBalance \<noteq> 0)
                 protocolTokensBalances)))"

section \<open>Unwrap\<close>

text \<open>Both pool bases: \<open>throw new NotImplementedError()\<close>, whatever the input.\<close>

definition unwrap_compound :: "'i \<Rightarrow> error + 'r" where
  "unwrap_compound input = Inl NotImplementedError"

definition unwrap_aave :: "'i \<Rightarrow> error + 'r" where
  "unwrap_aave input = Inl NotImplementedError"

text \<open>
  The vault adapter hands the two tokens to \<open>helpers.unwrapOneToOne\<close>. The helper is
  not among the sources: it is the parameter \<open>unwrapOneToOne\<close>, called with the
  protocol token and the list of underlying tokens (each \<open>None\<close> when the lookup
  gave an inherited value).
\<close>

definition unwrap_vault ::
  "(Erc20Metadata option \<Rightarrow> Erc20Metadata option list \<Rightarrow> error + 'r) \<Rightarrow> error + Metadata
     \<Rightarrow> address \<Rightarrow> blockTag \<Rightarrow> error + 'r" where
  "unwrap_vault unwrapOneToOne bm protocolTokenAddress atBlock =
     await (getProtocolToken bm protocolTokenAddress) (\<lambda>protocolToken.
       await (getUnderlyingToken bm protocolTokenAddress) (\<lambda>underlyingToken.
         unwrapOneToOne protocolToken [underlyingToken]))"

section \<open>Total value locked on the pool bases\<close>

record ProtocolTokenTvl = Erc20Metadata +
  tvlType :: TokenType
  totalSupplyRaw :: int

text \<open>
  The Compound base destructures the lens answer as \<open>[p2pSupply, poolSupply]\<close>, adds
  the two and divides by the cToken's stored exchange rate with \<open>WadMath.wadDiv\<close>.
  \<open>wadDiv\<close> belongs to the package \<open>evm-maths\<close>, not to the adapters: it is a
  parameter. Its result is a bigint, so the test
  \<open>totalValueRaw !== undefined\<close> always holds.
\<close>

definition getTotalValueLocked_compound ::
  "(int \<Rightarrow> int \<Rightarrow> error + int) \<Rightarrow> Provider \<Rightarrow> PositionType \<Rightarrow> error + Metadata
     \<Rightarrow> blockTag \<Rightarrow> error + ProtocolTokenTvl list" where
  "getTotalValueLocked_compound wadDiv p positionType bm atBlock =
     await (getProtocolTokens bm) (\<lambda>toks.
       promiseAll
         (\<lambda>tokenMetadata.
            await
              (if positionType = Supply
               then await (getTotalMarketSupply p (address tokenMetadata) atBlock)
                      (\<lambda>(p2pSupply, poolSupply). Inr (poolSupply + p2pSupply))
               else await (getTotalMarketBorrow p (address tokenMetadata) atBlock)
                      (\<lambda>(p2pBorrow, poolBorrow). Inr (poolBorrow + p2pBorrow)))
              (\<lambda>totalValueRaw.
                 await (exchangeRateStored p (address tokenMetadata) atBlock)
                   (\<lambda>exchangeRate.
                      await (wadDiv totalValueRaw exchangeRate)
                        (\<lambda>divided.
                           Inr \<lparr>address = address tokenMetadata, name = name tokenMetadata,
                                symbol = symbol tokenMetadata,
                                decimals = decimals tokenMetadata,
                                tvlType = Protocol, totalSupplyRaw = divided\<rparr>))))
         toks)"

text \<open>The Aave base destructures \<open>[poolSupply, p2pSupply]\<close> and returns the sum.\<close>

definition getTotalValueLocked_aave ::
  "Provider \<Rightarrow> PositionType \<Rightarrow> error + Metadata \<Rightarrow> blockTag
     \<Rightarrow> error + ProtocolTokenTvl list" where
  "getTotalValueLocked_aave p positionType bm atBlock =
     await (getProtocolTokens bm) (\<lambda>toks.
       promiseAll
         (\<lambda>tokenMetadata.
            await
              (if positionType = Supply
               then await (getTotalMarketSupply p (address tokenMetadata) atBlock)
                      (\<lambda>(poolSupply, p2pSupply). Inr (poolSupply + p2pSupply))
               else await (getTotalMarketBorrow p (address tokenMetadata) atBlock)
                      (\<lambda>(poolBorrow, p2pBorrow). Inr (poolBorrow + p2pBorrow)))
              (\<lambda>totalValueRaw.
                 Inr \<lparr>address = address tokenMetadata, name = name tokenMetadata,
                      symbol = symbol tokenMetadata, decimals = decimals tokenMetadata,
                      tvlType = Protocol, totalSupplyRaw = totalValueRaw\<rparr>))
         toks)"

section \<open>Movements\<close>

text \<open>
  On the pool bases \<open>getWithdrawals\<close>, \<open>getDeposits\<close>, \<open>getBorrows\<close> and
  \<open>getRepays\<close> pass their input on with the event type \<open>withdrawn\<close>,
  \<open>supplied\<close>, \<open>borrowed\<close> and \<open>repaid\<close>.

  Compound base, \<open>_getMovements\<close>: the two lookups come first, then the filter and the
  query. \<open>const [underlyingToken] = ...\<close> takes the head of the one-element list
  that \<open>fetchUnderlyingTokensMetadata\<close> returns. Reading \<open>_amount\<close> of an absent
  \<open>args\<close> is a \<open>TypeError\<close>.
\<close>

definition compoundFilter :: "PoolEventType \<Rightarrow> address \<Rightarrow> address \<Rightarrow> PoolFilter" where
  "compoundFilter eventType userAddress protocolTokenAddress =
     (case eventType of
        supplied \<Rightarrow> Supplied None (Some userAddress) (Some protocolTokenAddress)
      | withdrawn \<Rightarrow> Withdrawn (Some userAddress) None (Some protocolTokenAddress)
      | repaid \<Rightarrow> Repaid None (Some userAddress) (Some protocolTokenAddress)
      | borrowed \<Rightarrow> Borrowed (Some userAddress) (Some protocolTokenAddress))"

definition getMovements_compound ::
  "Provider \<Rightarrow> error + Metadata \<Rightarrow> address \<Rightarrow> address \<Rightarrow> nat \<Rightarrow> nat \<Rightarrow> PoolEventType
     \<Rightarrow> error + MovementsByBlock list" where
  "getMovements_compound p bm userAddress protocolTokenAddress fromBlock toBlock eventType =
     await (fetchProtocolTokenMetadata bm protocolTokenAddress) (\<lambda>pt.
       await (fetchUnderlyingTokensMetadata bm protocolTokenAddress) (\<lambda>uts.
         await (queryFilter p (compoundFilter eventType userAddress protocolTokenAddress)
                  fromBlock toBlock)
           (\<lambda>eventResults.
              promiseAll
                (\<lambda>event.
                   case args event of
                     None \<Rightarrow> Inl TypeError
                   | Some eventData \<Rightarrow>
                       Inr \<lparr>blockNumber = blockNumber event,
                            transactionHash = transactionHash event,
                            movementToken = pt,
                            movementTokens = [spreadUnderlying (hd uts) (amount eventData)]\<rparr>)
                eventResults)))"

text \<open>
  Aave base, \<open>getMovements\<close>: the filter and the query come first; each log with
  \<open>args\<close> is then looked up by its own \<open>_poolToken\<close>, a log without \<open>args\<close> gives
  \<open>null\<close> and is filtered out.
\<close>

definition aaveFilter :: "PoolEventType \<Rightarrow> address \<Rightarrow> address \<Rightarrow> PoolFilter" where
  "aaveFilter eventType userAddress protocolTokenAddress =
     (case eventType of
        supplied \<Rightarrow> Supplied None (Some userAddress) (Some protocolTokenAddress)
      | withdrawn \<Rightarrow> Withdrawn None (Some userAddress) (Some protocolTokenAddress)
      | repaid \<Rightarrow> Repaid None (Some userAddress) (Some protocolTokenAddress)
      | borrowed \<Rightarrow> Borrowed (Some userAddress) (Some protocolTokenAddress))"

definition aaveMovement ::
  "error + Metadata \<Rightarrow> PoolEventLog \<Rightarrow> error + MovementsByBlock option" where
  "aaveMovement bm event =
     (case args event of
        None \<Rightarrow> Inr None
      | Some eventData \<Rightarrow>
          await (fetchProtocolTokenMetadata bm (poolToken eventData)) (\<lambda>pt.
            await (fetchUnderlyingTokensMetadata bm (poolToken eventData)) (\<lambda>uts.
              Inr (Some \<lparr>blockNumber = blockNumber event,
                         transactionHash = transactionHash event,
                         movementToken = pt,
                         movementTokens =
                           map (\<lambda>ut. spreadUnderlying ut (amount eventData)) uts\<rparr>))))"

definition getMovements_aave ::
  "Provider \<Rightarrow> error + Metadata \<Rightarrow> address \<Rightarrow> address \<Rightarrow> nat \<Rightarrow> nat \<Rightarrow> PoolEventType
     \<Rightarrow> error + MovementsByBlock list" where
  "getMovements_aave p bm userAddress protocolTokenAddress fromBlock toBlock eventType =
     await (queryFilter p (aaveFilter eventType userAddress protocolTokenAddress)
              fromBlock toBlock)
       (\<lambda>eventResults.
          await (promiseAll (aaveMovement bm) eventResults)
            (\<lambda>movements. Inr (List.map_filter (\<lambda>movement. movement) movements)))"

section \<open>Bigint arithmetic and the conversion through Number\<close>

text \<open>
  \<open>Number(b)\<close> of a bigint \<open>b\<close> is the double nearest to \<open>b\<close>, ties to the even
  significand; a bigint of at most 53 bits is kept, a longer one is rounded to 53
  significant bits, and a result of \<open>2^1024\<close> or more is an infinity. Every double
  met here is a whole number or an infinity, so no fraction is needed. \<open>bitLength\<close>
  is the number of binary digits of a positive bigint, \<open>roundTiesToEven53\<close> the
  rounding of a magnitude.
\<close>

datatype JSNumber = Finite int | PlusInfinity | MinusInfinity

function bitLength :: "int \<Rightarrow> nat" where
  "bitLength n = (if n \<le> 0 then 0 else Suc (bitLength (n div 2)))"
  by pat_completeness auto
termination
  by (relation "measure nat") auto

declare bitLength.simps [simp del]

definition roundTiesToEven53 :: "int \<Rightarrow> int" where
  "roundTiesToEven53 n =
     (if bitLength n \<le> 53 then n
      else
        let k = bitLength n - 53;
            q = n div 2 ^ k;
            r = n mod 2 ^ k;
            half = 2 ^ (k - 1)
        in if half < r \<or> (r = half \<and> odd q) then (q + 1) * 2 ^ k else q * 2 ^ k)"

definition Number_of_BigInt :: "int \<Rightarrow> JSNumber" where
  "Number_of_BigInt b =
     (let m = roundTiesToEven53 \<bar>b\<bar>
      in if 2 ^ 1024 \<le> m then (if b < 0 then MinusInfinity else PlusInfinity)
         else Finite (if b < 0 then - m else m))"

text \<open>\<open>BigInt(n)\<close> of a number: a \<open>RangeError\<close> unless \<open>n\<close> is a whole number.\<close>

definition BigInt_of_Number :: "JSNumber \<Rightarrow> error + int" where
  "BigInt_of_Number n = (case n of Finite i \<Rightarrow> Inr i | _ \<Rightarrow> Inl RangeError)"

text \<open>
  \<open>b ** e\<close> on bigints raises a \<open>RangeError\<close> for a negative exponent; \<open>a / b\<close>
  raises one for a zero divisor and truncates towards zero otherwise.
\<close>

definition bigint_pow :: "int \<Rightarrow> int \<Rightarrow> error + int" where
  "bigint_pow b e = (if e < 0 then Inl RangeError else Inr (b ^ nat e))"

definition bigint_div :: "int \<Rightarrow> int \<Rightarrow> error + int" where
  "bigint_div a b =
     (if b = 0 then Inl RangeError else Inr (sgn a * sgn b * (\<bar>a\<bar> div \<bar>b\<bar>)))"

section \<open>The vault adapter\<close>

text \<open>
  \<open>getMovements\<close>: both lookups, then the filter on the vault's own contract. Each
  log's \<open>assets\<close> goes through \<open>Number(...)\<close> when the movement is built and
  back through \<open>BigInt(...)\<close> in the final \<open>map\<close>.
\<close>

definition vaultFilter :: "VaultEventType \<Rightarrow> address \<Rightarrow> VaultFilter" where
  "vaultFilter eventType userAddress =
     (case eventType of
        deposit \<Rightarrow> Deposit None (Some userAddress)
      | withdraw \<Rightarrow> Withdraw None None (Some userAddress))"

definition getMovements_vault ::
  "Provider \<Rightarrow> error + Metadata \<Rightarrow> address \<Rightarrow> nat \<Rightarrow> nat \<Rightarrow> VaultEventType \<Rightarrow> address
     \<Rightarrow> error + MovementsByBlock list" where
  "getMovements_vault p bm userAddress fromBlock toBlock eventType metaLQGVault =
     await (getProtocolToken bm metaLQGVault) (\<lambda>pt.
       await (getUnderlyingToken bm metaLQGVault) (\<lambda>ut.
         await (vaultQueryFilter p metaLQGVault (vaultFilter eventType userAddress)
                  fromBlock toBlock)
           (\<lambda>eventResults.
              await (promiseAll
                       (\<lambda>event.
                          case vaultArgs event of
                            None \<Rightarrow> Inl TypeError
                          | Some eventData \<Rightarrow>
                              Inr (event, Number_of_BigInt (assets eventData)))
                       eventResults)
                (\<lambda>movements.
                   promiseAll
                     (\<lambda>(event, n).
                        await (BigInt_of_Number n) (\<lambda>b.
                          Inr \<lparr>blockNumber = blockNumber event,
                               transactionHash = transactionHash event,
                               movementToken = pt,
                               movementTokens = [spreadUnderlying ut b]\<rparr>))
                     movements))))"

text \<open>\<open>(await Promise.all([this.getMovements(...)])).flat()\<close>.\<close>

definition getDeposits_vault ::
  "Provider \<Rightarrow> error + Metadata \<Rightarrow> address \<Rightarrow> nat \<Rightarrow> nat \<Rightarrow> address
     \<Rightarrow> error + MovementsByBlock list" where
  "getDeposits_vault p bm userAddress fromBlock toBlock protocolTokenAddress =
     await (promiseAll (\<lambda>eventType.
               getMovements_vault p bm userAddress fromBlock toBlock eventType
                 protocolTokenAddress) [deposit])
       (\<lambda>lists. Inr (concat lists))"

definition getWithdrawals_vault ::
  "Provider \<Rightarrow> error + Metadata \<Rightarrow> address \<Rightarrow> nat \<Rightarrow> nat \<Rightarrow> address
     \<Rightarrow> error + MovementsByBlock list" where
  "getWithdrawals_vault p bm userAddress fromBlock toBlock protocolTokenAddress =
     await (promiseAll (\<lambda>eventType.
               getMovements_vault p bm userAddress fromBlock toBlock eventType
                 protocolTokenAddress) [withdraw])
       (\<lambda>lists. Inr (concat lists))"

text \<open>
  \<open>getPositions\<close>. \<open>toLowerCase\<close> is given for the ASCII letters an address is
  written with. For each selected vault: the underlying token is looked up (reading
  \<open>underlyingToken.address\<close> of \<open>undefined\<close> is a \<open>TypeError\<close>), then the
  user's balance, the vault's decimals and the asset's decimals are read; only a
  balance above zero builds a position, whose underlying amount is
  \<open>balanceRaw / 10n ** (vaultDecimal - assetDecimals)\<close>. Each callback pushes its
  position when it finishes, so the positions are listed in the order in which the
  callbacks finish.
\<close>

definition toLowerCase :: "string \<Rightarrow> string" where
  "toLowerCase s =
     map (\<lambda>c. let n = (of_char c :: nat)
               in if 65 \<le> n \<and> n \<le> 90 then char_of (n + 32) else c) s"

definition vaultPosition ::
  "Provider \<Rightarrow> error + Metadata \<Rightarrow> address \<Rightarrow> blockTag \<Rightarrow> Erc20Metadata
     \<Rightarrow> error + VaultPosition option" where
  "vaultPosition p bm userAddress atBlock pt =
     await (getUnderlyingToken bm (address pt)) (\<lambda>looked.
       case looked of
         None \<Rightarrow> Inl TypeError
       | Some ut0 \<Rightarrow>
           await (balanceOf p (address pt) userAddress atBlock) (\<lambda>bal.
             await (contractDecimals p (address pt)) (\<lambda>vaultDecimal.
               await (contractDecimals p (address ut0)) (\<lambda>assetDecimals.
                 if 0 < bal then
                   await (getUnderlyingToken bm (address pt)) (\<lambda>ut.
                     await (bigint_pow 10 (vaultDecimal - assetDecimals)) (\<lambda>scale.
                       await (bigint_div bal scale) (\<lambda>underlyingRaw.
                         Inr (Some \<lparr>address = address pt, name = name pt,
                                    symbol = symbol pt, decimals = decimals pt,
                                    balanceRaw = bal, tokenType = Protocol,
                                    tokens = [spreadUnderlying ut underlyingRaw],
                                    tokenId = address pt\<rparr>))))
                 else Inr None))))"

definition filteredTokens :: "address list option \<Rightarrow> Erc20Metadata list \<Rightarrow> Erc20Metadata list" where
  "filteredTokens protocolTokenAddresses protocolTokens =
     (case protocolTokenAddresses of
        Some addrs \<Rightarrow>
          filter (\<lambda>token. List.member (map toLowerCase addrs) (toLowerCase (address token)))
            protocolTokens
      | None \<Rightarrow> protocolTokens)"

definition getPositions_vault ::
  "Provider \<Rightarrow> error + Metadata \<Rightarrow> address \<Rightarrow> blockTag \<Rightarrow> address list option
     \<Rightarrow> error + VaultPosition list" where
  "getPositions_vault p bm userAddress atBlock protocolTokenAddresses =
     await (getProtocolTokens bm) (\<lambda>protocolTokens.
       await (promiseAll (vaultPosition p bm userAddress atBlock)
                (completionOrder p address
                   (filteredTokens protocolTokenAddresses protocolTokens)))
         (\<lambda>pushed. Inr (List.map_filter (\<lambda>position. position) pushed)))"

section \<open>Metadata construction\<close>

text \<open>
  One market of the registry on the Compound base: the underlying asset's address
  (the \<open>catch\<close> handler returns \<open>ZERO_ADDRESS\<close> for a truthy rejection reason and
  rethrows any other), the metadata of both tokens, and the entry keyed by the
  protocol token's address.
\<close>

definition supplyTokenAddress_compound :: "Provider \<Rightarrow> address \<Rightarrow> error + address" where
  "supplyTokenAddress_compound p marketAddress =
     (case underlying p marketAddress of
        Inl err \<Rightarrow> (if truthy err then Inr ZERO_ADDRESS else Inl err)
      | Inr a \<Rightarrow> Inr a)"

definition marketEntry_compound ::
  "Provider \<Rightarrow> address \<Rightarrow> error + (address \<times> PoolMetadata)" where
  "marketEntry_compound p marketAddress =
     await (supplyTokenAddress_compound p marketAddress) (\<lambda>supplyTokenAddress.
       await (getTokenMetadata p marketAddress) (\<lambda>pt.
         await (getTokenMetadata p supplyTokenAddress) (\<lambda>ut.
           Inr (address pt, \<lparr>protocolToken = pt, underlyingToken = ut\<rparr>))))"

text \<open>
  The entries are assigned into the empty object \<open>metadataObject\<close>, each when its
  callback finishes: \<open>assignAll\<close> takes them in that order.
\<close>

definition assignAll :: "(string \<times> PoolMetadata) list \<Rightarrow> Metadata" where
  "assignAll entries = foldl (\<lambda>obj (k, v). setProp obj k v) emptyObject entries"

definition enumerate_compound :: "Provider \<Rightarrow> error + Metadata" where
  "enumerate_compound p =
     await (getAllMarkets p) (\<lambda>markets.
       await (promiseAll (marketEntry_compound p) (completionOrder p (\<lambda>m. m) markets))
         (\<lambda>entries. Inr (assignAll entries)))"

text \<open>
  The Compound base keeps \<open>_metadataCache\<close> on the instance: a call returns the
  cached object when there is one, and otherwise enumerates the registry and stores
  the object it built. A rejection leaves the field as it was.
\<close>

record CompoundAdapter =
  metadataCache :: "Metadata option"

definition buildMetadata_compound ::
  "Provider \<Rightarrow> CompoundAdapter \<Rightarrow> (error + Metadata) \<times> CompoundAdapter" where
  "buildMetadata_compound p this =
     (case metadataCache this of
        Some cached \<Rightarrow> (Inr cached, this)
      | None \<Rightarrow>
          (case enumerate_compound p of
             Inl e \<Rightarrow> (Inl e, this)
           | Inr metadataObject \<Rightarrow>
               (Inr metadataObject, this\<lparr>metadataCache := Some metadataObject\<rparr>)))"

text \<open>The Aave base has no such field: every call runs the whole body.\<close>

definition supplyTokenAddress_aave :: "Provider \<Rightarrow> address \<Rightarrow> error + address" where
  "supplyTokenAddress_aave p marketAddress =
     (case UNDERLYING_ASSET_ADDRESS p marketAddress of
        Inl err \<Rightarrow> (if truthy err then Inr ZERO_ADDRESS else Inl err)
      | Inr a \<Rightarrow> Inr a)"

definition marketEntry_aave ::
  "Provider \<Rightarrow> address \<Rightarrow> error + (address \<times> PoolMetadata)" where
  "marketEntry_aave p marketAddress =
     await (supplyTokenAddress_aave p marketAddress) (\<lambda>supplyTokenAddress.
       await (getTokenMetadata p marketAddress) (\<lambda>pt.
         await (getTokenMetadata p supplyTokenAddress) (\<lambda>ut.
           Inr (address pt, \<lparr>protocolToken = pt, underlyingToken = ut\<rparr>))))"

definition buildMetadata_aave :: "Provider \<Rightarrow> error + Metadata" where
  "buildMetadata_aave p =
     await (getMarketsCreated p) (\<lambda>markets.
       await (promiseAll (marketEntry_aave p) (completionOrder p (\<lambda>m. m) markets))
         (\<lambda>entries. Inr (assignAll entries)))"

text \<open>The vault adapter keys each entry by the vault address of the creation event.\<close>

definition vaultEntry ::
  "Provider \<Rightarrow> CreateMetaLQG \<Rightarrow> error + (address \<times> PoolMetadata)" where
  "vaultEntry p ev =
     await (getTokenMetadata p (vault ev)) (\<lambda>vaultData.
       await (getTokenMetadata p (underlyingAsset ev)) (\<lambda>underlyingTokenData.
         Inr (vault ev, \<lparr>protocolToken = vaultData, underlyingToken = underlyingTokenData\<rparr>)))"

definition buildMetadata_vault :: "Provider \<Rightarrow> error + Metadata" where
  "buildMetadata_vault p =
     await (factoryQueryFilter p) (\<lambda>metaLQGVaults.
       await (promiseAll (vaultEntry p) (completionOrder p vault metaLQGVaults))
         (\<lambda>entries. Inr (assignAll entries)))"

section \<open>A small chain to run the adapters on\<close>

text \<open>
  Two markets: \<open>0xA\<close> over the asset \<open>0xUA\<close>, and \<open>0xB\<close>, whose underlying-asset
  call reverts (as a market over the chain's native coin does). \<open>0xA\<close> also serves as a
  vault over \<open>0xUA\<close>. One supply event and one vault deposit are on the chain; the
  deposit is of \<open>2^53 + 1\<close> units.
\<close>

definition tokA :: Erc20Metadata where
  "tokA = \<lparr>address = ''0xA'', name = ''market A'', symbol = ''mA'', decimals = 18\<rparr>"

definition tokB :: Erc20Metadata where
  "tokB = \<lparr>address = ''0xB'', name = ''market B'', symbol = ''mB'', decimals = 18\<rparr>"

definition undA :: Erc20Metadata where
  "undA = \<lparr>address = ''0xUA'', name = ''asset A'', symbol = ''UA'', decimals = 6\<rparr>"

definition nativeCoin :: Erc20Metadata where
  "nativeCoin = \<lparr>address = ZERO_ADDRESS, name = ''native'', symbol = ''N'', decimals = 18\<rparr>"

definition metadata0 :: Metadata where
  "metadata0 =
     \<lparr>own = [(''0xA'', \<lparr>protocolToken = tokA, underlyingToken = undA\<rparr>),
             (''0xB'', \<lparr>protocolToken = tokB, underlyingToken = nativeCoin\<rparr>)],
      inheritsFrom = None\<rparr>"

definition supplyLog :: PoolEventLog where
  "supplyLog =
     \<lparr>blockNumber = 7, transactionHash = ''0xh1'',
      args = Some \<lparr>poolToken = ''0xA'', amount = 9007199254740993\<rparr>\<rparr>"

definition depositLog :: VaultEventLog where
  "depositLog =
     \<lparr>blockNumber = 8, transactionHash = ''0xh2'',
      vaultArgs = Some \<lparr>assets = 9007199254740993\<rparr>\<rparr>"

definition chain0 :: Provider where
  "chain0 =
     \<lparr>getAllMarkets = Inr [''0xA'', ''0xB''],
      getMarketsCreated = Inr [''0xA'', ''0xB''],
      underlying = (\<lambda>m. if m = ''0xA'' then Inr ''0xUA'' else Inl CallException),
      UNDERLYING_ASSET_ADDRESS = (\<lambda>m. if m = ''0xA'' then Inr ''0xUA'' else Inl CallException),
      getTokenMetadata =
        (\<lambda>a. if a = ''0xA'' then Inr tokA
              else if a = ''0xB'' then Inr tokB
              else if a = ''0xUA'' then Inr undA
              else if a = ZERO_ADDRESS then Inr nativeCoin
              else Inl CallException),
      getCurrentSupplyBalanceInOf = (\<lambda>m u b. if m = ''0xA'' then Inr (2, 3, 5) else Inr (0, 0, 0)),
      getCurrentBorrowBalanceInOf = (\<lambda>m u b. if m = ''0xA'' then Inr (1, 3, 4) else Inr (0, 0, 0)),
      getTotalMarketSupply = (\<lambda>m b. Inr (30, 70)),
      getTotalMarketBorrow = (\<lambda>m b. Inr (10, 20)),
      exchangeRateStored = (\<lambda>m b. Inr 2000000000000000000),
      queryFilter =
        (\<lambda>flt f t. case flt of
                      Supplied _ _ tok \<Rightarrow> if tok = Some ''0xA'' then Inr [supplyLog] else Inr []
                    | _ \<Rightarrow> Inr []),
      factoryQueryFilter = Inr [\<lparr>vault = ''0xA'', underlyingAsset = ''0xUA''\<rparr>],
      vaultQueryFilter =
        (\<lambda>v flt f t. case flt of Deposit _ _ \<Rightarrow> Inr [depositLog] | _ \<Rightarrow> Inr []),
      balanceOf = (\<lambda>v u b. if v = ''0xA'' then Inr 5000000000000000 else Inr 0),
      contractDecimals = (\<lambda>a. if a = ''0xUA'' then Inr 6 else Inr 18),
      completesAt = (\<lambda>a. 0)\<rparr>"

text \<open>A \<open>wadDiv\<close> to run the Compound base with: the quotient scaled by \<open>10^18\<close>, half up.\<close>

definition wadDiv0 :: "int \<Rightarrow> int \<Rightarrow> error + int" where
  "wadDiv0 x y =
     (if y = 0 then Inl RangeError
      else Inr ((x * 1000000000000000000 + y div 2) div y))"

text \<open>A stand-in for \<open>helpers.unwrapOneToOne\<close> that returns what it was called with.\<close>

definition unwrapOneToOne0 ::
  "Erc20Metadata option \<Rightarrow> Erc20Metadata option list
     \<Rightarrow> error + (Erc20Metadata option \<times> Erc20Metadata option list)" where
  "unwrapOneToOne0 pt uts = Inr (pt, uts)"

text \<open>The positions the adapters return for a user on that chain.\<close>

definition positionA :: PoolPosition where
  "positionA =
     \<lparr>address = ''0xA'', name = ''market A'', symbol = ''mA'', decimals = 18,
      balanceRaw = 5, tokenType = Protocol,
      tokens = [Full (underlyingEntry undA 5)], balance = 5\<rparr>"

definition vaultPositionA :: VaultPosition where
  "vaultPositionA =
     \<lparr>address = ''0xA'', name = ''market A'', symbol = ''mA'', decimals = 18,
      balanceRaw = 5000000000000000, tokenType = Protocol,
      tokens = [Full (underlyingEntry undA 5000)], tokenId = ''0xA''\<rparr>"

text \<open>
  The same chain with a vault of 6 decimals over an asset of 18, and that chain again
  with no balance in any vault.
\<close>

definition smallVaultChain :: Provider where
  "smallVaultChain =
     chain0\<lparr>contractDecimals := (\<lambda>a. if a = ''0xUA'' then Inr 18 else Inr 6)\<rparr>"

definition emptySmallVaultChain :: Provider where
  "emptySmallVaultChain = smallVaultChain\<lparr>balanceOf := (\<lambda>v u b. Inr 0)\<rparr>"

text \<open>
  The small chain with a balance in both vaults, on which the reads for \<open>0xA\<close> are
  answered after those for \<open>0xB\<close>.
\<close>

definition laterAChain :: Provider where
  "laterAChain =
     chain0\<lparr>balanceOf := (\<lambda>v u b. if v = ''0xA'' then Inr 5000000000000000 else Inr 7),
            completesAt := (\<lambda>a. if a = ''0xA'' then 2 else 1)\<rparr>"

definition vaultPositionB :: VaultPosition where
  "vaultPositionB =
     \<lparr>address = ''0xB'', name = ''market B'', symbol = ''mB'', decimals = 18,
      balanceRaw = 7, tokenType = Protocol,
      tokens = [Full (underlyingEntry nativeCoin 7)], tokenId = ''0xB''\<rparr>"

text \<open>
  The chain answering every log query with one decoded log of a market \<open>0xC\<close> that
  the metadata mapping does not list.
\<close>

definition unlistedLog :: PoolEventLog where
  "unlistedLog =
     \<lparr>blockNumber = 9, transactionHash = ''0xh3'',
      args = Some \<lparr>poolToken = ''0xC'', amount = 12\<rparr>\<rparr>"

definition unlistedMarketChain :: Provider where
  "unlistedMarketChain = chain0\<lparr>queryFilter := (\<lambda>flt f t. Inr [unlistedLog])\<rparr>"





definition depositMovement :: MovementsByBlock where
  "depositMovement =
     \<lparr>blockNumber = 8, transactionHash = ''0xh2'', movementToken = Some tokA,
      movementTokens = [Full (underlyingEntry undA 9007199254740992)]\<rparr>"

text \<open>
  The small chain before market \<open>0xB\<close> was created, and the mapping built on it.
\<close>

definition earlierChain :: Provider where
  "earlierChain = chain0\<lparr>getAllMarkets := Inr [''0xA''], getMarketsCreated := Inr [''0xA'']\<rparr>"

definition metadataA :: Metadata where
  "metadataA =
     \<lparr>own = [(''0xA'', \<lparr>protocolToken = tokA, underlyingToken = undA\<rparr>)],
      inheritsFrom = None\<rparr>"

text \<open>The small chain with a registry that does not answer.\<close>

definition failingRegistryChain :: Provider where
  "failingRegistryChain =
     chain0\<lparr>getAllMarkets := Inl CallException, getMarketsCreated := Inl CallException\<rparr>"

section \<open>Notions the properties are stated with\<close>

text \<open>
  The reads \<open>getPositions\<close> of the vault adapter makes for one vault \<open>pt\<close>, all
  answered: the underlying token, the user's balance, and the two decimals.
\<close>

definition vaultReads ::
  "Provider \<Rightarrow> error + Metadata \<Rightarrow> address \<Rightarrow> blockTag \<Rightarrow> Erc20Metadata \<Rightarrow> Erc20Metadata
     \<Rightarrow> int \<Rightarrow> int \<Rightarrow> int \<Rightarrow> bool" where
  "vaultReads p bm userAddress atBlock pt ut bal vaultDecimal assetDecimals =
     (getUnderlyingToken bm (address pt) = Inr (Some ut) \<and>
      balanceOf p (address pt) userAddress atBlock = Inr bal \<and>
      contractDecimals p (address pt) = Inr vaultDecimal \<and>
      contractDecimals p (address ut) = Inr assetDecimals)"

text \<open>
  To state what \<open>getTotalValueLocked\<close> returns: \<open>lensTotals\<close> is the lens call the
  position type selects (the pair the adapters destructure), \<open>tvlEntry\<close> the returned
  object for a token and a total.
\<close>

definition lensTotals :: "Provider \<Rightarrow> PositionType \<Rightarrow> address \<Rightarrow> blockTag \<Rightarrow> error + (int \<times> int)" where
  "lensTotals p positionType a atBlock =
     (if positionType = Supply then getTotalMarketSupply p a atBlock
      else getTotalMarketBorrow p a atBlock)"

definition tvlEntry :: "Erc20Metadata \<Rightarrow> int \<Rightarrow> ProtocolTokenTvl" where
  "tvlEntry tokenMetadata raw =
     \<lparr>address = address tokenMetadata, name = name tokenMetadata,
      symbol = symbol tokenMetadata, decimals = decimals tokenMetadata,
      tvlType = Protocol, totalSupplyRaw = raw\<rparr>"

text \<open>
  To state what the \<open>catch\<close> handler of the underlying-asset call does:
  \<open>orZeroAddress call\<close> is the call with every rejection replaced by the zero
  address.
\<close>

definition orZeroAddress :: "(address \<Rightarrow> error + address) \<Rightarrow> address \<Rightarrow> error + address" where
  "orZeroAddress call marketAddress =
     (case call marketAddress of Inl err \<Rightarrow> Inr ZERO_ADDRESS | Inr a \<Rightarrow> Inr a)"

text \<open>
  To state what a log query answers: \<open>poolTopic\<close> is the pool token a filter of
  the pool contracts names, its last argument (\<open>None\<close> for the wildcard). A node
  answers by pool token when every decoded log it returns for a filter that names a
  pool token carries that token as \<open>_poolToken\<close>.
\<close>

fun poolTopic :: "PoolFilter \<Rightarrow> address option" where
  "poolTopic (Supplied from onBehalf token) = token"
| "poolTopic (Withdrawn supplier receiver token) = token"
| "poolTopic (Repaid repayer onBehalf token) = token"
| "poolTopic (Borrowed borrower token) = token"

section \<open>Basic facts\<close>

lemma await_simps [simp]:
  "await (Inl e) k = Inl e"
  "await (Inr x) k = k x"
  by (simp_all add: await_def)

lemma await_eq_Inr: "await r k = Inr y \<longleftrightarrow> (\<exists>x. r = Inr x \<and> k x = Inr y)"
  by (cases r) simp_all

lemma promiseAll_Inr_D:
  "promiseAll f xs = Inr ys \<Longrightarrow> list_all2 (\<lambda>x y. f x = Inr y) xs ys"
  by (induction xs arbitrary: ys) (auto split: sum.splits)

lemma promiseAll_Inr_I:
  "list_all2 (\<lambda>x y. f x = Inr y) xs ys \<Longrightarrow> promiseAll f xs = Inr ys"
  by (induction xs ys rule: list_all2_induct) auto

lemma promiseAll_Inl_D: "promiseAll f xs = Inl e \<Longrightarrow> \<exists>x\<in>set xs. f x = Inl e"
  by (induction xs) (auto split: sum.splits)

lemma promiseAll_total:
  "(\<And>x. x \<in> set xs \<Longrightarrow> \<exists>y. f x = Inr y) \<Longrightarrow> \<exists>ys. promiseAll f xs = Inr ys"
proof (induction xs)
  case Nil
  show ?case by simp
next
  case (Cons x xs)
  obtain y where y: "f x = Inr y" using Cons.prems[of x] by auto
  obtain ys where ys: "promiseAll f xs = Inr ys" using Cons by auto
  show ?case using y ys by simp
qed

lemma promiseAll_member_Inl:
  "x \<in> set xs \<Longrightarrow> f x = Inl e \<Longrightarrow> \<exists>e'. promiseAll f xs = Inl e'"
  by (induction xs) (auto split: sum.splits)

lemma truthy_all: "truthy e"
  by (cases e) simp_all

lemma set_completionOrder [simp]: "set (completionOrder p addr xs) = set xs"
  by (simp add: completionOrder_def)

lemma distinct_completionOrder [simp]:
  "distinct (completionOrder p addr xs) = distinct xs"
  by (simp add: completionOrder_def)

lemma completionOrder_same_time:
  "(\<And>x. x \<in> set xs \<Longrightarrow> completesAt p (addr x) = c) \<Longrightarrow> completionOrder p addr xs = xs"
  unfolding completionOrder_def
proof (induction xs)
  case Nil
  show ?case by simp
next
  case (Cons x xs)
  then have ih: "sort_key (\<lambda>x. completesAt p (addr x)) xs = xs" by simp
  have "insort_key (\<lambda>x. completesAt p (addr x)) x xs = x # xs"
    using Cons.prems by (cases xs) simp_all
  with ih show ?case by simp
qed

lemma getProp_own:
  "map_of (own md) a = Some pm \<Longrightarrow> getProp md a = Some (Entry pm)"
  by (simp add: getProp_def)

lemma fetchPoolMetadata_absent:
  "getProp md a = None \<Longrightarrow>
   fetchPoolMetadata (Inr md) a = Inl (Error ''Protocol token pool not found'')"
  by (simp add: fetchPoolMetadata_def)

lemma fetchPoolMetadata_present:
  "getProp md a = Some lk \<Longrightarrow> fetchPoolMetadata (Inr md) a = Inr lk"
  by (simp add: fetchPoolMetadata_def)

lemma fetchPoolMetadata_Inr_D:
  "fetchPoolMetadata bm a = Inr lk \<Longrightarrow> \<exists>md. bm = Inr md \<and> getProp md a = Some lk"
  by (auto simp: fetchPoolMetadata_def await_eq_Inr split: option.splits)

lemma fetchPoolMetadata_Inl_D:
  "fetchPoolMetadata (Inr md) a = Inl e \<Longrightarrow> e = Error ''Protocol token pool not found''"
  by (auto simp: fetchPoolMetadata_def split: option.splits)

lemma list_all2_in_set2:
  "list_all2 P xs ys \<Longrightarrow> y \<in> set ys \<Longrightarrow> \<exists>x\<in>set xs. P x y"
  by (induction xs ys rule: list_all2_induct) auto

lemma underlyingEntry_balanceRaw [simp]: "balanceRaw (underlyingEntry ut amt) = amt"
  by (simp add: underlyingEntry_def)

lemma entryBalanceRaw_spread [simp]: "entryBalanceRaw (spreadUnderlying t amt) = amt"
  by (cases t) (simp_all add: spreadUnderlying_def)

lemma spreadUnderlying_Some [simp]:
  "spreadUnderlying (Some ut) amt = Full (underlyingEntry ut amt)"
  by (simp add: spreadUnderlying_def)

lemma protocolTokenOf_Some_D: "protocolTokenOf lk = Some t \<Longrightarrow> \<exists>pm. lk = Entry pm \<and> protocolToken pm = t"
  by (cases lk) simp_all

lemma underlyingTokenOf_Some_D: "underlyingTokenOf lk = Some t \<Longrightarrow> \<exists>pm. lk = Entry pm \<and> underlyingToken pm = t"
  by (cases lk) simp_all

section \<open>Positions: what the pool bases return\<close>

lemma poolPosition_tokens:
  assumes "poolPosition bm ab = Inr pos"
  shows "address pos = fst ab \<and> balanceRaw pos = snd ab \<and>
         (\<exists>pm. fetchPoolMetadata bm (address pos) = Inr (Entry pm) \<and>
            tokens pos = [Full (underlyingEntry (underlyingToken pm) (balanceRaw pos))])"
proof -
  from assms obtain t where
    t: "fetchProtocolTokenMetadata bm (fst ab) = Inr (Some t)"
    by (auto simp: poolPosition_def await_eq_Inr split: option.splits)
  then obtain lk where lk: "fetchPoolMetadata bm (fst ab) = Inr lk" "protocolTokenOf lk = Some t"
    by (auto simp: fetchProtocolTokenMetadata_def await_eq_Inr)
  then obtain pm where pm: "lk = Entry pm" by (auto dest: protocolTokenOf_Some_D)
  from assms t lk pm show ?thesis
    by (auto simp: poolPosition_def getUnderlyingTokenBalances_def await_eq_Inr Let_def)
qed

lemma poolPosition_Inr_D:
  assumes "poolPosition bm ab = Inr pos"
  shows "address pos = fst ab \<and> balanceRaw pos = snd ab \<and>
         (\<exists>u. tokens pos = [u] \<and> entryBalanceRaw u = balanceRaw pos)"
  using poolPosition_tokens[OF assms] by auto

lemma getPositions_Inr_D:
  assumes "getPositions p positionType bm userAddress atBlock = Inr ps"
  shows "\<exists>toks bals. getProtocolTokens bm = Inr toks \<and>
           list_all2 (\<lambda>market ab. getBalance p positionType market userAddress atBlock = Inr (snd ab)
                                  \<and> fst ab = address market) toks bals \<and>
           list_all2 (\<lambda>ab pos. poolPosition bm ab = Inr pos)
             (filter (\<lambda>ab. snd ab \<noteq> 0) bals) ps"
proof -
  from assms obtain toks bals where
    t: "getProtocolTokens bm = Inr toks" and
    b: "promiseAll (\<lambda>market. await (getBalance p positionType market userAddress atBlock)
                      (\<lambda>amount. Inr (address market, amount))) toks = Inr bals" and
    q: "promiseAll (poolPosition bm) (filter (\<lambda>ab. snd ab \<noteq> 0) bals) = Inr ps"
    unfolding getPositions_def await_eq_Inr by blast
  have "list_all2 (\<lambda>market ab. await (getBalance p positionType market userAddress atBlock)
                      (\<lambda>amount. Inr (address market, amount)) = Inr ab) toks bals"
    using promiseAll_Inr_D[OF b] .
  then have "list_all2 (\<lambda>market ab. getBalance p positionType market userAddress atBlock = Inr (snd ab)
                                  \<and> fst ab = address market) toks bals"
    by (rule list_all2_mono) (auto simp: await_eq_Inr)
  with t promiseAll_Inr_D[OF q] show ?thesis by blast
qed

lemma filter_balances_addresses:
  assumes "list_all2 (\<lambda>market ab. rd market = Inr (snd ab) \<and> fst ab = address market) toks bals"
  shows "map fst (filter (\<lambda>ab. snd ab \<noteq> (0::int)) bals)
         = map address (filter (\<lambda>market. rd market \<noteq> Inr 0) toks)"
  using assms by (induction toks bals rule: list_all2_induct) auto

lemma positions_addresses:
  assumes "list_all2 (\<lambda>ab pos. poolPosition bm ab = Inr pos) bals ps"
  shows "map address ps = map fst bals"
  using assms by (induction bals ps rule: list_all2_induct) (auto dest: poolPosition_Inr_D)

lemma positions_nonzero:
  assumes "list_all2 (\<lambda>ab pos. poolPosition bm ab = Inr pos) (filter (\<lambda>ab. snd ab \<noteq> 0) bals) ps"
    and "pos \<in> set ps"
  shows "balanceRaw pos \<noteq> 0"
proof -
  from list_all2_in_set2[OF assms] obtain ab where
    "ab \<in> set (filter (\<lambda>ab. snd ab \<noteq> 0) bals)" "poolPosition bm ab = Inr pos"
    by blast
  then show ?thesis by (auto dest: poolPosition_Inr_D)
qed

lemma getPositions_pool_facts:
  assumes "getPositions p positionType bm userAddress atBlock = Inr ps"
  shows "(\<forall>pos\<in>set ps. balanceRaw pos \<noteq> 0) \<and>
         (\<exists>toks. getProtocolTokens bm = Inr toks \<and>
            map address ps =
              map address (filter (\<lambda>market. getBalance p positionType market userAddress atBlock \<noteq> Inr 0) toks))"
proof -
  from getPositions_Inr_D[OF assms] obtain toks bals where
    t: "getProtocolTokens bm = Inr toks" and
    b: "list_all2 (\<lambda>market ab. getBalance p positionType market userAddress atBlock = Inr (snd ab)
                                  \<and> fst ab = address market) toks bals" and
    q: "list_all2 (\<lambda>ab pos. poolPosition bm ab = Inr pos)
             (filter (\<lambda>ab. snd ab \<noteq> 0) bals) ps"
    by blast
  have 1: "\<forall>pos\<in>set ps. balanceRaw pos \<noteq> 0"
    using positions_nonzero[OF q] by blast
  have 2: "map address ps = map address (filter (\<lambda>market. getBalance p positionType market userAddress atBlock \<noteq> Inr 0) toks)"
    using positions_addresses[OF q] filter_balances_addresses[OF b] by simp
  from 1 2 t show ?thesis by blast
qed

lemma getPositions_pool_tokens:
  assumes "getPositions p positionType bm userAddress atBlock = Inr ps" and "pos \<in> set ps"
  shows "\<exists>pm. fetchPoolMetadata bm (address pos) = Inr (Entry pm) \<and>
           tokens pos = [Full (underlyingEntry (underlyingToken pm) (balanceRaw pos))]"
proof -
  from getPositions_Inr_D[OF assms(1)] obtain bals where
    q: "list_all2 (\<lambda>ab pos. poolPosition bm ab = Inr pos)
             (filter (\<lambda>ab. snd ab \<noteq> 0) bals) ps"
    by blast
  from list_all2_in_set2[OF q assms(2)] obtain ab where "poolPosition bm ab = Inr pos"
    by blast
  from poolPosition_tokens[OF this] show ?thesis by blast
qed

section \<open>Positions: what the vault adapter returns\<close>

lemma bigint_div_pos:
  "0 < a \<Longrightarrow> 0 < b \<Longrightarrow> bigint_div a b = Inr (a div b)"
  by (simp add: bigint_div_def)

lemma vaultPosition_unfold:
  assumes "getUnderlyingToken bm (address pt) = Inr (Some ut)"
    and "balanceOf p (address pt) userAddress atBlock = Inr bal"
    and "contractDecimals p (address pt) = Inr vaultDecimal"
    and "contractDecimals p (address ut) = Inr assetDecimals"
  shows "vaultPosition p bm userAddress atBlock pt =
           (if 0 < bal then
              (if vaultDecimal < assetDecimals then Inl RangeError
               else Inr (Some \<lparr>address = address pt, name = name pt,
                                symbol = symbol pt, decimals = decimals pt,
                                balanceRaw = bal, tokenType = Protocol,
                                tokens = [Full (underlyingEntry ut
                                            (bal div 10 ^ nat (vaultDecimal - assetDecimals)))],
                                tokenId = address pt\<rparr>))
            else Inr None)"
  using assms
  by (simp add: vaultPosition_def bigint_pow_def bigint_div_pos)

lemma vaultPosition_reads:
  assumes "vaultPosition p bm userAddress atBlock pt = Inr r"
  shows "\<exists>ut bal vaultDecimal assetDecimals.
           getUnderlyingToken bm (address pt) = Inr (Some ut) \<and>
           balanceOf p (address pt) userAddress atBlock = Inr bal \<and>
           contractDecimals p (address pt) = Inr vaultDecimal \<and>
           contractDecimals p (address ut) = Inr assetDecimals"
  using assms
  by (auto simp: vaultPosition_def await_eq_Inr split: option.splits)

lemma vaultPosition_Some_D:
  assumes "vaultPosition p bm userAddress atBlock pt = Inr (Some pos)"
  shows "address pos = address pt \<and>
         balanceOf p (address pt) userAddress atBlock = Inr (balanceRaw pos) \<and>
         0 < balanceRaw pos \<and>
         (\<exists>ut vaultDecimal assetDecimals.
            getUnderlyingToken bm (address pt) = Inr (Some ut) \<and>
            contractDecimals p (address pt) = Inr vaultDecimal \<and>
            contractDecimals p (address ut) = Inr assetDecimals \<and>
            assetDecimals \<le> vaultDecimal \<and>
            tokens pos =
              [Full (underlyingEntry ut
                       (balanceRaw pos div 10 ^ nat (vaultDecimal - assetDecimals)))])"
proof -
  from vaultPosition_reads[OF assms] obtain ut bal vd ad where
    ut: "getUnderlyingToken bm (address pt) = Inr (Some ut)" and
    bal: "balanceOf p (address pt) userAddress atBlock = Inr bal" and
    vd: "contractDecimals p (address pt) = Inr vd" and
    ad: "contractDecimals p (address ut) = Inr ad"
    by blast
  note u = vaultPosition_unfold[OF ut bal vd ad]
  from assms have pos: "0 < bal" and le: "ad \<le> vd"
    unfolding u by (auto split: if_splits)
  from assms pos le have
    "pos = \<lparr>address = address pt, name = name pt,
            symbol = symbol pt, decimals = decimals pt,
            balanceRaw = bal, tokenType = Protocol,
            tokens = [Full (underlyingEntry ut (bal div 10 ^ nat (vd - ad)))],
            tokenId = address pt\<rparr>"
    unfolding u by simp
  then show ?thesis using ut bal vd ad le pos by auto
qed

lemma vaultPosition_None_D:
  assumes "vaultPosition p bm userAddress atBlock pt = Inr None"
  shows "\<exists>bal. balanceOf p (address pt) userAddress atBlock = Inr bal \<and> bal \<le> 0"
proof -
  from vaultPosition_reads[OF assms] obtain ut bal vd ad where
    ut: "getUnderlyingToken bm (address pt) = Inr (Some ut)" and
    bal: "balanceOf p (address pt) userAddress atBlock = Inr bal" and
    vd: "contractDecimals p (address pt) = Inr vd" and
    ad: "contractDecimals p (address ut) = Inr ad"
    by blast
  note u = vaultPosition_unfold[OF ut bal vd ad]
  from assms have "\<not> 0 < bal"
    unfolding u by (auto split: if_splits)
  with bal show ?thesis by auto
qed

lemma getPositions_vault_Inr_D:
  assumes "getPositions_vault p bm userAddress atBlock sel = Inr vs"
  shows "\<exists>toks pushed. getProtocolTokens bm = Inr toks \<and>
           list_all2 (\<lambda>pt r. vaultPosition p bm userAddress atBlock pt = Inr r)
             (completionOrder p address (filteredTokens sel toks)) pushed \<and>
           vs = List.map_filter (\<lambda>position. position) pushed"
proof -
  from assms obtain toks pushed where
    t: "getProtocolTokens bm = Inr toks" and
    q: "promiseAll (vaultPosition p bm userAddress atBlock)
          (completionOrder p address (filteredTokens sel toks)) = Inr pushed" and
    v: "vs = List.map_filter (\<lambda>position. position) pushed"
    unfolding getPositions_vault_def await_eq_Inr by auto
  with promiseAll_Inr_D[OF q] show ?thesis by blast
qed

lemma pushed_addresses:
  assumes "list_all2 (\<lambda>pt r. vaultPosition p bm userAddress atBlock pt = Inr r) toks pushed"
  shows "map address (List.map_filter (\<lambda>position. position) pushed) =
         map address (filter (\<lambda>pt. \<exists>bal. balanceOf p (address pt) userAddress atBlock = Inr bal \<and> 0 < bal) toks)"
  using assms
proof (induction toks pushed rule: list_all2_induct)
  case Nil
  show ?case by (simp add: List.map_filter_simps)
next
  case (Cons pt toks r pushed)
  show ?case
  proof (cases r)
    case None
    with Cons show ?thesis
      by (auto simp: List.map_filter_simps dest!: vaultPosition_None_D)
  next
    case (Some pos)
    with Cons show ?thesis
      by (auto simp: List.map_filter_simps dest!: vaultPosition_Some_D)
  qed
qed

lemma getPositions_vault_facts:
  assumes "getPositions_vault p bm userAddress atBlock sel = Inr vs"
  shows "(\<forall>pos\<in>set vs. 0 < balanceRaw pos) \<and>
         (\<exists>toks. getProtocolTokens bm = Inr toks \<and>
            map address vs =
              map address (filter (\<lambda>pt. \<exists>bal. balanceOf p (address pt) userAddress atBlock = Inr bal \<and> 0 < bal)
                             (completionOrder p address (filteredTokens sel toks))))"
proof -
  from getPositions_vault_Inr_D[OF assms] obtain toks pushed where
    t: "getProtocolTokens bm = Inr toks" and
    q: "list_all2 (\<lambda>pt r. vaultPosition p bm userAddress atBlock pt = Inr r)
             (completionOrder p address (filteredTokens sel toks)) pushed" and
    v: "vs = List.map_filter (\<lambda>position. position) pushed"
    by blast
  have "\<forall>pos\<in>set vs. 0 < balanceRaw pos"
  proof
    fix pos assume "pos \<in> set vs"
    then have "Some pos \<in> set pushed"
      unfolding v by (auto simp: List.map_filter_def)
    from list_all2_in_set2[OF q this] obtain pt where
      "vaultPosition p bm userAddress atBlock pt = Inr (Some pos)" by blast
    then show "0 < balanceRaw pos" by (auto dest: vaultPosition_Some_D)
  qed
  moreover have "map address vs = map address (filter (\<lambda>pt. \<exists>bal. balanceOf p (address pt) userAddress atBlock = Inr bal \<and> 0 < bal)
                             (completionOrder p address (filteredTokens sel toks)))"
    unfolding v using pushed_addresses[OF q] .
  ultimately show ?thesis using t by blast
qed

lemma getPositions_vault_tokens:
  assumes "getPositions_vault p bm userAddress atBlock sel = Inr vs" and "pos \<in> set vs"
  shows "\<exists>ut vaultDecimal assetDecimals.
            getUnderlyingToken bm (address pos) = Inr (Some ut) \<and>
            contractDecimals p (address pos) = Inr vaultDecimal \<and>
            contractDecimals p (address ut) = Inr assetDecimals \<and>
            assetDecimals \<le> vaultDecimal \<and>
            tokens pos =
              [Full (underlyingEntry ut
                       (balanceRaw pos div 10 ^ nat (vaultDecimal - assetDecimals)))]"
proof -
  from getPositions_vault_Inr_D[OF assms(1)] obtain toks pushed where
    q: "list_all2 (\<lambda>pt r. vaultPosition p bm userAddress atBlock pt = Inr r)
             (completionOrder p address (filteredTokens sel toks)) pushed" and
    v: "vs = List.map_filter (\<lambda>position. position) pushed"
    by blast
  have "Some pos \<in> set pushed"
    using assms(2) unfolding v by (auto simp: List.map_filter_def)
  from list_all2_in_set2[OF q this] obtain pt where
    "vaultPosition p bm userAddress atBlock pt = Inr (Some pos)" by blast
  from vaultPosition_Some_D[OF this] show ?thesis by auto
qed

section \<open>The adapters on the small chain\<close>

lemma arrayIndex_0x [simp]: "arrayIndex (CHR ''0'' # CHR ''x'' # s) = None"
  by (simp add: arrayIndex_def)

lemma Object_values_metadata0:
  "Object_values metadata0 =
     [\<lparr>protocolToken = tokA, underlyingToken = undA\<rparr>,
      \<lparr>protocolToken = tokB, underlyingToken = nativeCoin\<rparr>]"
  by (simp add: Object_values_def metadata0_def)

lemma getProtocolTokens_metadata0:
  "getProtocolTokens (Inr metadata0) = Inr [tokA, tokB]"
  by (simp add: getProtocolTokens_def Object_values_metadata0)

lemma getProp_metadata0_A:
  "getProp metadata0 ''0xA'' = Some (Entry \<lparr>protocolToken = tokA, underlyingToken = undA\<rparr>)"
  by (simp add: getProp_def metadata0_def)

lemma getProp_metadata0_B:
  "getProp metadata0 ''0xB'' = Some (Entry \<lparr>protocolToken = tokB, underlyingToken = nativeCoin\<rparr>)"
  by (simp add: getProp_def metadata0_def)

lemma getProp_metadata0_C: "getProp metadata0 ''0xC'' = None"
  by (simp add: getProp_def metadata0_def ObjectPrototypeNames_def List.member_iff)

lemma fetchPoolMetadata_metadata0_A:
  "fetchPoolMetadata (Inr metadata0) ''0xA''
     = Inr (Entry \<lparr>protocolToken = tokA, underlyingToken = undA\<rparr>)"
  by (simp add: fetchPoolMetadata_present getProp_metadata0_A)

lemma fetchPoolMetadata_metadata0_B:
  "fetchPoolMetadata (Inr metadata0) ''0xB''
     = Inr (Entry \<lparr>protocolToken = tokB, underlyingToken = nativeCoin\<rparr>)"
  by (simp add: fetchPoolMetadata_present getProp_metadata0_B)

lemma fetchPoolMetadata_metadata0_C:
  "fetchPoolMetadata (Inr metadata0) ''0xC'' = Inl (Error ''Protocol token pool not found'')"
  by (simp add: fetchPoolMetadata_absent getProp_metadata0_C)

lemma completionOrder_chain0 [simp]: "completionOrder chain0 addr xs = xs"
  by (rule completionOrder_same_time[where c = 0]) (simp add: chain0_def)

lemma getPositions_chain0:
  "getPositions chain0 Supply (Inr metadata0) userAddress None = Inr [positionA]"
  by (simp add: getPositions_def getProtocolTokens_metadata0
      getBalance_def chain0_def tokA_def tokB_def undA_def poolPosition_def
      fetchProtocolTokenMetadata_def fetchPoolMetadata_metadata0_A
      getUnderlyingTokenBalances_def positionA_def underlyingEntry_def)

lemma getPositions_vault_chain0:
  "getPositions_vault chain0 (Inr metadata0) userAddress None None = Inr [vaultPositionA]"
proof -
  have a: "vaultPosition chain0 (Inr metadata0) userAddress None tokA = Inr (Some vaultPositionA)"
    by (simp add: vaultPosition_def getUnderlyingToken_def tokA_def
        fetchPoolMetadata_metadata0_A undA_def chain0_def bigint_pow_def bigint_div_def
        vaultPositionA_def underlyingEntry_def)
  have b: "vaultPosition chain0 (Inr metadata0) userAddress None tokB = Inr None"
    by (simp add: vaultPosition_def getUnderlyingToken_def tokB_def
        fetchPoolMetadata_metadata0_B nativeCoin_def chain0_def)
  show ?thesis
    by (simp add: getPositions_vault_def getProtocolTokens_metadata0 filteredTokens_def a b
        List.map_filter_simps)
qed

lemma getPositions_vault_laterAChain:
  "getPositions_vault laterAChain (Inr metadata0) userAddress None None
     = Inr [vaultPositionB, vaultPositionA]"
proof -
  have a: "vaultPosition laterAChain (Inr metadata0) userAddress None tokA = Inr (Some vaultPositionA)"
    by (simp add: vaultPosition_def getUnderlyingToken_def tokA_def
        fetchPoolMetadata_metadata0_A undA_def laterAChain_def chain0_def bigint_pow_def
        bigint_div_def vaultPositionA_def underlyingEntry_def)
  have b: "vaultPosition laterAChain (Inr metadata0) userAddress None tokB = Inr (Some vaultPositionB)"
    by (simp add: vaultPosition_def getUnderlyingToken_def tokB_def
        fetchPoolMetadata_metadata0_B nativeCoin_def ZERO_ADDRESS_def laterAChain_def
        chain0_def bigint_pow_def bigint_div_def vaultPositionB_def underlyingEntry_def)
  have o: "completionOrder laterAChain address [tokA, tokB] = [tokB, tokA]"
    by (simp add: completionOrder_def laterAChain_def tokA_def tokB_def)
  show ?thesis
    by (simp add: getPositions_vault_def getProtocolTokens_metadata0 filteredTokens_def o a b
        List.map_filter_simps)
qed

section \<open>Zero balances\<close>

text \<open>
  Claim C4. A list returned by \<open>getPositions\<close> holds no position with a zero
  protocol-token balance, on the pool bases (the Compound and the Aave base share the
  text of \<open>getPositions\<close>) and on the vault adapter. More precisely, the positions
  are those of the markets whose balance read is not zero, in the order of the markets
  (pool bases), and those of the selected vaults whose balance read is above zero, in
  the order in which the vaults' callbacks finish (vault adapter).
\<close>

theorem positions_exclude_zero_balances:
  "(getPositions p positionType bm userAddress atBlock = Inr ps \<longrightarrow>
      (\<forall>pos\<in>set ps. balanceRaw pos \<noteq> 0) \<and>
      (\<exists>toks. getProtocolTokens bm = Inr toks \<and>
         map address ps =
           map address
             (filter (\<lambda>market. getBalance p positionType market userAddress atBlock \<noteq> Inr 0)
                toks))) \<and>
   (getPositions_vault p bm userAddress atBlock sel = Inr vs \<longrightarrow>
      (\<forall>pos\<in>set vs. 0 < balanceRaw pos) \<and>
      (\<exists>toks. getProtocolTokens bm = Inr toks \<and>
         map address vs =
           map address
             (filter (\<lambda>pt. \<exists>bal. balanceOf p (address pt) userAddress atBlock = Inr bal \<and> 0 < bal)
                (completionOrder p address (filteredTokens sel toks)))))"
  using getPositions_pool_facts getPositions_vault_facts by blast

theorem positions_exclude_zero_balances_witness:
  "getPositions chain0 Supply (Inr metadata0) ''0xU'' None = Inr [positionA] \<and>
   getPositions_vault chain0 (Inr metadata0) ''0xU'' None None = Inr [vaultPositionA] \<and>
   list_all (\<lambda>pos. balanceRaw pos \<noteq> 0) [positionA] \<and>
   list_all (\<lambda>pos. 0 < balanceRaw pos) [vaultPositionA] \<and>
   getBalance chain0 Supply tokB ''0xU'' None = Inr 0 \<and>
   balanceOf chain0 ''0xB'' ''0xU'' None = Inr 0 \<and>
   map address [positionA] = [''0xA''] \<and>
   map address [vaultPositionA] = [''0xA''] \<and>
   getPositions_vault laterAChain (Inr metadata0) ''0xU'' None None
     = Inr [vaultPositionB, vaultPositionA] \<and>
   list_all (\<lambda>pos. 0 < balanceRaw pos) [vaultPositionB, vaultPositionA] \<and>
   map address [vaultPositionB, vaultPositionA] = [''0xB'', ''0xA'']"
  using positions_exclude_zero_balances
    [of chain0 Supply "Inr metadata0" "''0xU''" None "[positionA]" None "[vaultPositionA]"]
    positions_exclude_zero_balances
    [of laterAChain Supply "Inr metadata0" "''0xU''" None "[positionA]" None
        "[vaultPositionB, vaultPositionA]"]
    getPositions_chain0 [of "''0xU''"] getPositions_vault_chain0 [of "''0xU''"]
    getPositions_vault_laterAChain [of "''0xU''"]
  by (simp add: getBalance_def chain0_def tokB_def positionA_def vaultPositionA_def
      vaultPositionB_def)

section \<open>Decomposition into underlying amounts\<close>

text \<open>
  Claim C5. Every position of the pool bases has one underlying entry, the market's
  underlying token with the position's own \<open>balanceRaw\<close> (one to one). Every
  position of the vault adapter has one underlying entry, the vault's underlying token
  with the position's \<open>balanceRaw\<close> divided by
  \<open>10 ^ (vaultDecimals - assetDecimals)\<close>, the decimals being those the two
  contracts report.
\<close>

theorem decomposition_policy:
  "(getPositions p positionType bm userAddress atBlock = Inr ps \<longrightarrow>
      (\<forall>pos\<in>set ps. \<exists>pm u.
          fetchPoolMetadata bm (address pos) = Inr (Entry pm) \<and>
          tokens pos = [Full u] \<and> u = underlyingEntry (underlyingToken pm) (balanceRaw pos) \<and>
          balanceRaw u = balanceRaw pos)) \<and>
   (getPositions_vault p bm userAddress atBlock sel = Inr vs \<longrightarrow>
      (\<forall>pos\<in>set vs. \<exists>ut vaultDecimal assetDecimals u.
          getUnderlyingToken bm (address pos) = Inr (Some ut) \<and>
          contractDecimals p (address pos) = Inr vaultDecimal \<and>
          contractDecimals p (address ut) = Inr assetDecimals \<and>
          assetDecimals \<le> vaultDecimal \<and>
          tokens pos = [Full u] \<and>
          u = underlyingEntry ut (balanceRaw pos div 10 ^ nat (vaultDecimal - assetDecimals)) \<and>
          balanceRaw u = balanceRaw pos div 10 ^ nat (vaultDecimal - assetDecimals)))"
proof (intro conjI impI ballI)
  fix pos
  assume "getPositions p positionType bm userAddress atBlock = Inr ps" "pos \<in> set ps"
  from getPositions_pool_tokens[OF this]
  show "\<exists>pm u. fetchPoolMetadata bm (address pos) = Inr (Entry pm) \<and>
          tokens pos = [Full u] \<and> u = underlyingEntry (underlyingToken pm) (balanceRaw pos) \<and>
          balanceRaw u = balanceRaw pos"
    by auto
next
  fix pos
  assume "getPositions_vault p bm userAddress atBlock sel = Inr vs" "pos \<in> set vs"
  from getPositions_vault_tokens[OF this]
  show "\<exists>ut vaultDecimal assetDecimals u.
          getUnderlyingToken bm (address pos) = Inr (Some ut) \<and>
          contractDecimals p (address pos) = Inr vaultDecimal \<and>
          contractDecimals p (address ut) = Inr assetDecimals \<and>
          assetDecimals \<le> vaultDecimal \<and>
          tokens pos = [Full u] \<and>
          u = underlyingEntry ut (balanceRaw pos div 10 ^ nat (vaultDecimal - assetDecimals)) \<and>
          balanceRaw u = balanceRaw pos div 10 ^ nat (vaultDecimal - assetDecimals)"
    by auto
qed

theorem decomposition_policy_witness:
  "getPositions chain0 Supply (Inr metadata0) ''0xU'' None = Inr [positionA] \<and>
   getPositions_vault chain0 (Inr metadata0) ''0xU'' None None = Inr [vaultPositionA] \<and>
   map entryBalanceRaw (tokens positionA) = [balanceRaw positionA] \<and>
   contractDecimals chain0 ''0xA'' = Inr 18 \<and>
   contractDecimals chain0 ''0xUA'' = Inr 6 \<and>
   map entryBalanceRaw (tokens vaultPositionA) = [balanceRaw vaultPositionA div 10 ^ (18 - 6)]"
  using decomposition_policy
    [of chain0 Supply "Inr metadata0" "''0xU''" None "[positionA]" None "[vaultPositionA]"]
    getPositions_chain0 [of "''0xU''"] getPositions_vault_chain0 [of "''0xU''"]
  by (simp add: positionA_def vaultPositionA_def chain0_def)

section \<open>Unwrap on the three bases\<close>

text \<open>
  Claim C10. On both pool bases \<open>unwrap\<close> rejects with \<open>NotImplementedError\<close> for
  every input. Only the vault adapter implements it: for an address of the metadata
  mapping it returns what the one-to-one helper returns for the vault's protocol token
  and the one-element list of its underlying token.
\<close>

theorem unwrap_pool_not_implemented:
  "(unwrap_compound input1 :: error + 'r) = Inl NotImplementedError \<and>
   (unwrap_aave input2 :: error + 'r) = Inl NotImplementedError \<and>
   (map_of (own md) a = Some pm \<longrightarrow>
      unwrap_vault unwrapOneToOne (Inr md) a atBlock
        = unwrapOneToOne (Some (protocolToken pm)) [Some (underlyingToken pm)])"
  by (simp add: unwrap_compound_def unwrap_aave_def unwrap_vault_def
      getProtocolToken_def getUnderlyingToken_def fetchPoolMetadata_present getProp_own)

theorem unwrap_pool_not_implemented_witness:
  "map_of (own metadata0) ''0xA'' = Some \<lparr>protocolToken = tokA, underlyingToken = undA\<rparr> \<and>
   unwrap_vault unwrapOneToOne0 (Inr metadata0) ''0xA'' None = Inr (Some tokA, [Some undA]) \<and>
   (unwrap_compound ''0xA'' :: error + unit) = Inl NotImplementedError \<and>
   (unwrap_aave ''0xA'' :: error + unit) = Inl NotImplementedError"
  using unwrap_pool_not_implemented
    [where 'r = unit, of "''0xA''" "''0xA''" metadata0 "''0xA''"
        "\<lparr>protocolToken = tokA, underlyingToken = undA\<rparr>" unwrapOneToOne0 None]
  by (simp add: metadata0_def unwrapOneToOne0_def)

section \<open>The vault decomposition and the order of the decimals\<close>

lemma vaultPosition_eval:
  assumes "vaultReads p bm userAddress atBlock pt ut bal vaultDecimal assetDecimals"
  shows "vaultPosition p bm userAddress atBlock pt =
           (if 0 < bal then
              (if vaultDecimal < assetDecimals then Inl RangeError
               else Inr (Some \<lparr>address = address pt, name = name pt,
                                symbol = symbol pt, decimals = decimals pt,
                                balanceRaw = bal, tokenType = Protocol,
                                tokens = [Full (underlyingEntry ut
                                            (bal div 10 ^ nat (vaultDecimal - assetDecimals)))],
                                tokenId = address pt\<rparr>))
            else Inr None)"
  using assms unfolding vaultReads_def by (intro vaultPosition_unfold) simp_all

text \<open>
  Claim C9, as amended. \<open>10n ** (vaultDecimal - assetDecimals)\<close> raises a
  \<open>RangeError\<close> whenever the asset's decimals exceed the vault's. The expression is
  evaluated only for a vault in which the user's balance is above zero: for such a
  vault, with the asset's decimals above the vault's, the vault's callback rejects with
  that error and \<open>getPositions\<close> fails; a vault whose balance is not above zero is
  skipped whatever the decimals are. With the vault's decimals at least the asset's,
  the amount is the balance divided by the power of ten, rounded down, and
  \<open>getPositions\<close> returns whenever every selected vault answers its reads and has
  its decimals in that order or no balance.
\<close>

theorem vault_decomposition_needs_decimals_order:
  "(vaultDecimal < assetDecimals \<longrightarrow>
      bigint_pow 10 (vaultDecimal - assetDecimals) = Inl RangeError) \<and>
   (vaultReads p bm userAddress atBlock pt ut bal vaultDecimal assetDecimals \<and>
    0 < bal \<and> vaultDecimal < assetDecimals \<and>
    getProtocolTokens bm = Inr toks \<and> pt \<in> set (filteredTokens sel toks) \<longrightarrow>
      vaultPosition p bm userAddress atBlock pt = Inl RangeError \<and>
      (\<exists>e. getPositions_vault p bm userAddress atBlock sel = Inl e)) \<and>
   (vaultReads p bm userAddress atBlock pt ut bal vaultDecimal assetDecimals \<and> bal \<le> 0 \<longrightarrow>
      vaultPosition p bm userAddress atBlock pt = Inr None) \<and>
   (vaultReads p bm userAddress atBlock pt ut bal vaultDecimal assetDecimals \<and>
    0 < bal \<and> assetDecimals \<le> vaultDecimal \<longrightarrow>
      (\<exists>pos. vaultPosition p bm userAddress atBlock pt = Inr (Some pos) \<and>
         balanceRaw pos = bal \<and>
         tokens pos =
           [Full (underlyingEntry ut (bal div 10 ^ nat (vaultDecimal - assetDecimals)))])) \<and>
   (getProtocolTokens bm = Inr toks \<and>
    (\<forall>t\<in>set (filteredTokens sel toks). \<exists>ut' bal' vd ad.
        vaultReads p bm userAddress atBlock t ut' bal' vd ad \<and> (0 < bal' \<longrightarrow> ad \<le> vd)) \<longrightarrow>
      (\<exists>vs. getPositions_vault p bm userAddress atBlock sel = Inr vs))"
proof (intro conjI impI)
  assume "vaultDecimal < assetDecimals"
  then show "bigint_pow 10 (vaultDecimal - assetDecimals) = Inl RangeError"
    by (simp add: bigint_pow_def)
next
  assume a: "vaultReads p bm userAddress atBlock pt ut bal vaultDecimal assetDecimals \<and>
    0 < bal \<and> vaultDecimal < assetDecimals \<and>
    getProtocolTokens bm = Inr toks \<and> pt \<in> set (filteredTokens sel toks)"
  then have rd: "vaultReads p bm userAddress atBlock pt ut bal vaultDecimal assetDecimals"
    by simp
  from a show r: "vaultPosition p bm userAddress atBlock pt = Inl RangeError"
    by (simp add: vaultPosition_eval[OF rd])
  from a have mem: "pt \<in> set (completionOrder p address (filteredTokens sel toks))" by simp
  from promiseAll_member_Inl[of pt "completionOrder p address (filteredTokens sel toks)"
      "vaultPosition p bm userAddress atBlock", OF mem r] obtain e where
    "promiseAll (vaultPosition p bm userAddress atBlock)
       (completionOrder p address (filteredTokens sel toks)) = Inl e"
    by blast
  with a show "\<exists>e. getPositions_vault p bm userAddress atBlock sel = Inl e"
    by (simp add: getPositions_vault_def)
next
  assume a: "vaultReads p bm userAddress atBlock pt ut bal vaultDecimal assetDecimals \<and> bal \<le> 0"
  then have rd: "vaultReads p bm userAddress atBlock pt ut bal vaultDecimal assetDecimals"
    by simp
  from a show "vaultPosition p bm userAddress atBlock pt = Inr None"
    by (simp add: vaultPosition_eval[OF rd])
next
  assume a: "vaultReads p bm userAddress atBlock pt ut bal vaultDecimal assetDecimals \<and>
    0 < bal \<and> assetDecimals \<le> vaultDecimal"
  then have rd: "vaultReads p bm userAddress atBlock pt ut bal vaultDecimal assetDecimals"
    by simp
  from a show "\<exists>pos. vaultPosition p bm userAddress atBlock pt = Inr (Some pos) \<and>
         balanceRaw pos = bal \<and>
         tokens pos =
           [Full (underlyingEntry ut (bal div 10 ^ nat (vaultDecimal - assetDecimals)))]"
    by (simp add: vaultPosition_eval[OF rd])
next
  assume a: "getProtocolTokens bm = Inr toks \<and>
    (\<forall>t\<in>set (filteredTokens sel toks). \<exists>ut' bal' vd ad.
        vaultReads p bm userAddress atBlock t ut' bal' vd ad \<and> (0 < bal' \<longrightarrow> ad \<le> vd))"
  have "\<exists>r. vaultPosition p bm userAddress atBlock t = Inr r"
    if "t \<in> set (completionOrder p address (filteredTokens sel toks))" for t
  proof -
    from that have "t \<in> set (filteredTokens sel toks)" by simp
    with a obtain ut' bal' vd ad where
      rd: "vaultReads p bm userAddress atBlock t ut' bal' vd ad" and ok: "0 < bal' \<longrightarrow> ad \<le> vd"
      by blast
    show ?thesis
      using ok by (auto simp: vaultPosition_eval[OF rd])
  qed
  from promiseAll_total[of "completionOrder p address (filteredTokens sel toks)"
      "vaultPosition p bm userAddress atBlock", OF this]
  obtain pushed where
    "promiseAll (vaultPosition p bm userAddress atBlock)
       (completionOrder p address (filteredTokens sel toks)) = Inr pushed"
    by blast
  with a show "\<exists>vs. getPositions_vault p bm userAddress atBlock sel = Inr vs"
    by (simp add: getPositions_vault_def)
qed

lemma getUnderlyingToken_metadata0_A:
  "getUnderlyingToken (Inr metadata0) ''0xA'' = Inr (Some undA)"
  by (simp add: getUnderlyingToken_def fetchPoolMetadata_metadata0_A)

lemma getUnderlyingToken_metadata0_B:
  "getUnderlyingToken (Inr metadata0) ''0xB'' = Inr (Some nativeCoin)"
  by (simp add: getUnderlyingToken_def fetchPoolMetadata_metadata0_B)

lemma vaultReads_small:
  "vaultReads smallVaultChain (Inr metadata0) ''0xU'' None tokA undA 5000000000000000 6 18"
  by (simp add: vaultReads_def smallVaultChain_def chain0_def tokA_def
      getUnderlyingToken_metadata0_A undA_def)

lemma vaultReads_chain0_A:
  "vaultReads chain0 (Inr metadata0) ''0xU'' None tokA undA 5000000000000000 18 6"
  by (simp add: vaultReads_def chain0_def tokA_def getUnderlyingToken_metadata0_A undA_def)

lemma vaultReads_chain0_B:
  "vaultReads chain0 (Inr metadata0) ''0xU'' None tokB nativeCoin 0 18 18"
  by (simp add: vaultReads_def chain0_def tokB_def getUnderlyingToken_metadata0_B
      nativeCoin_def ZERO_ADDRESS_def)

theorem vault_decomposition_needs_decimals_order_witness:
  "vaultReads smallVaultChain (Inr metadata0) ''0xU'' None tokA undA 5000000000000000 6 18 \<and>
   vaultPosition smallVaultChain (Inr metadata0) ''0xU'' None tokA = Inl RangeError \<and>
   (\<exists>e. getPositions_vault smallVaultChain (Inr metadata0) ''0xU'' None None = Inl e) \<and>
   vaultReads chain0 (Inr metadata0) ''0xU'' None tokB nativeCoin 0 18 18 \<and>
   vaultPosition chain0 (Inr metadata0) ''0xU'' None tokB = Inr None \<and>
   vaultReads chain0 (Inr metadata0) ''0xU'' None tokA undA 5000000000000000 18 6 \<and>
   (\<exists>pos. vaultPosition chain0 (Inr metadata0) ''0xU'' None tokA = Inr (Some pos) \<and>
      balanceRaw pos = 5000000000000000 \<and> tokens pos = [Full (underlyingEntry undA 5000)]) \<and>
   (\<exists>vs. getPositions_vault chain0 (Inr metadata0) ''0xU'' None None = Inr vs)"
proof -
  have sel: "filteredTokens None [tokA, tokB] = [tokA, tokB]"
    by (simp add: filteredTokens_def)
  note small = vault_decomposition_needs_decimals_order
    [of 6 18 smallVaultChain "Inr metadata0" "''0xU''" None tokA undA 5000000000000000
        "[tokA, tokB]" None]
  note a = vault_decomposition_needs_decimals_order
    [of 18 6 chain0 "Inr metadata0" "''0xU''" None tokA undA 5000000000000000
        "[tokA, tokB]" None]
  note b = vault_decomposition_needs_decimals_order
    [of 18 18 chain0 "Inr metadata0" "''0xU''" None tokB nativeCoin 0
        "[tokA, tokB]" None]
  have all: "\<forall>t\<in>set (filteredTokens None [tokA, tokB]). \<exists>ut' bal' vd ad.
        vaultReads chain0 (Inr metadata0) ''0xU'' None t ut' bal' vd ad \<and> (0 < bal' \<longrightarrow> ad \<le> vd)"
    unfolding sel using vaultReads_chain0_A vaultReads_chain0_B by fastforce
  show ?thesis
    using small a b all vaultReads_small vaultReads_chain0_A vaultReads_chain0_B
      getProtocolTokens_metadata0 sel
    by simp
qed

text \<open>
  Claim C9 as stated fails: on a chain where the asset has 18 decimals and the vault 6,
  a user without a balance gets the empty list of positions, not a failure.
\<close>

theorem zero_balance_hides_decimals_order:
  "contractDecimals emptySmallVaultChain (address tokA) = Inr 6 \<and>
   contractDecimals emptySmallVaultChain (address undA) = Inr 18 \<and>
   getPositions_vault emptySmallVaultChain (Inr metadata0) ''0xU'' None None = Inr []"
proof -
  have o: "completionOrder emptySmallVaultChain address [tokA, tokB] = [tokA, tokB]"
    by (rule completionOrder_same_time[where c = 0])
      (simp add: emptySmallVaultChain_def smallVaultChain_def chain0_def)
  have a: "vaultPosition emptySmallVaultChain (Inr metadata0) ''0xU'' None tokA = Inr None"
    by (simp add: vaultPosition_def tokA_def getUnderlyingToken_metadata0_A
        emptySmallVaultChain_def smallVaultChain_def chain0_def)
  have b: "vaultPosition emptySmallVaultChain (Inr metadata0) ''0xU'' None tokB = Inr None"
    by (simp add: vaultPosition_def tokB_def getUnderlyingToken_metadata0_B
        emptySmallVaultChain_def smallVaultChain_def chain0_def)
  have "getPositions_vault emptySmallVaultChain (Inr metadata0) ''0xU'' None None = Inr []"
    by (simp add: getPositions_vault_def getProtocolTokens_metadata0 filteredTokens_def o a b
        List.map_filter_simps)
  then show ?thesis
    by (simp add: emptySmallVaultChain_def smallVaultChain_def chain0_def tokA_def undA_def)
qed

section \<open>Addresses the metadata mapping does not hold\<close>

lemma getDeposits_vault_eq:
  "getDeposits_vault p bm userAddress fromBlock toBlock a =
     getMovements_vault p bm userAddress fromBlock toBlock deposit a"
  by (cases "getMovements_vault p bm userAddress fromBlock toBlock deposit a")
    (simp_all add: getDeposits_vault_def)

lemma getWithdrawals_vault_eq:
  "getWithdrawals_vault p bm userAddress fromBlock toBlock a =
     getMovements_vault p bm userAddress fromBlock toBlock withdraw a"
  by (cases "getMovements_vault p bm userAddress fromBlock toBlock withdraw a")
    (simp_all add: getWithdrawals_vault_def)

text \<open>
  What the lookups do for a name that the object neither holds nor inherits: the pool
  lookup rejects with \<open>Error('Protocol token pool not found')\<close>, and so does every
  operation that starts with it.
\<close>

lemma undefined_lookups_reject:
  assumes n: "getProp md a = None"
  shows "fetchPoolMetadata (Inr md) a = Inl (Error ''Protocol token pool not found'')"
    and "fetchProtocolTokenMetadata (Inr md) a = Inl (Error ''Protocol token pool not found'')"
    and "fetchUnderlyingTokensMetadata (Inr md) a = Inl (Error ''Protocol token pool not found'')"
    and "getProtocolToken (Inr md) a = Inl (Error ''Protocol token pool not found'')"
    and "getUnderlyingToken (Inr md) a = Inl (Error ''Protocol token pool not found'')"
    and "getMovements_compound p (Inr md) userAddress a fromBlock toBlock eventType
           = Inl (Error ''Protocol token pool not found'')"
    and "getMovements_vault p (Inr md) userAddress fromBlock toBlock vaultEventType a
           = Inl (Error ''Protocol token pool not found'')"
    and "unwrap_vault unwrapOneToOne (Inr md) a atBlock
           = Inl (Error ''Protocol token pool not found'')"
proof -
  show f: "fetchPoolMetadata (Inr md) a = Inl (Error ''Protocol token pool not found'')"
    using n by (rule fetchPoolMetadata_absent)
  show pt: "fetchProtocolTokenMetadata (Inr md) a = Inl (Error ''Protocol token pool not found'')"
    by (simp add: fetchProtocolTokenMetadata_def f)
  show "fetchUnderlyingTokensMetadata (Inr md) a = Inl (Error ''Protocol token pool not found'')"
    by (simp add: fetchUnderlyingTokensMetadata_def f)
  show gp: "getProtocolToken (Inr md) a = Inl (Error ''Protocol token pool not found'')"
    by (simp add: getProtocolToken_def f)
  show "getUnderlyingToken (Inr md) a = Inl (Error ''Protocol token pool not found'')"
    by (simp add: getUnderlyingToken_def f)
  show "getMovements_compound p (Inr md) userAddress a fromBlock toBlock eventType
        = Inl (Error ''Protocol token pool not found'')"
    by (simp add: getMovements_compound_def pt)
  show "getMovements_vault p (Inr md) userAddress fromBlock toBlock vaultEventType a
        = Inl (Error ''Protocol token pool not found'')"
    by (simp add: getMovements_vault_def gp)
  show "unwrap_vault unwrapOneToOne (Inr md) a atBlock
        = Inl (Error ''Protocol token pool not found'')"
    by (simp add: unwrap_vault_def gp)
qed

lemma aaveMovement_Inl_D:
  "aaveMovement (Inr md) l = Inl e \<Longrightarrow> e = Error ''Protocol token pool not found''"
  by (auto simp: aaveMovement_def fetchProtocolTokenMetadata_def
      fetchUnderlyingTokensMetadata_def fetchPoolMetadata_def split: option.splits)

lemma aaveMovement_absent:
  "args l = Some d \<Longrightarrow> getProp md (poolToken d) = None \<Longrightarrow>
   aaveMovement (Inr md) l = Inl (Error ''Protocol token pool not found'')"
  by (simp add: aaveMovement_def fetchProtocolTokenMetadata_def fetchPoolMetadata_def)

lemma aaveMovement_no_args: "args l = None \<Longrightarrow> aaveMovement bm l = Inr None"
  by (simp add: aaveMovement_def)

lemma promiseAll_aave_no_args:
  "\<forall>l\<in>set logs. args l = None \<Longrightarrow>
   promiseAll (aaveMovement bm) logs = Inr (map (\<lambda>l. None) logs)"
  by (induction logs) (simp_all add: aaveMovement_no_args)

lemma map_filter_all_None: "List.map_filter (\<lambda>m. m) (map (\<lambda>l. None) logs) = []"
  by (induction logs) (simp_all add: List.map_filter_simps)

text \<open>
  The Aave base's movement query looks up no address before it has logs: it rejects
  when the query returned a decoded log of a pool token that the object neither holds
  nor inherits, and returns the empty list when the query returned no decoded log.
\<close>

lemma getMovements_aave_no_args:
  assumes "queryFilter p (aaveFilter eventType userAddress a) fromBlock toBlock = Inr logs"
    and "\<forall>l\<in>set logs. args l = None"
  shows "getMovements_aave p bm userAddress a fromBlock toBlock eventType = Inr []"
  using assms
  by (simp add: getMovements_aave_def promiseAll_aave_no_args map_filter_all_None)

lemma getMovements_aave_absent:
  assumes q: "queryFilter p (aaveFilter eventType userAddress a) fromBlock toBlock = Inr logs"
    and l: "l \<in> set logs" and d: "args l = Some d" and n: "getProp md (poolToken d) = None"
  shows "getMovements_aave p (Inr md) userAddress a fromBlock toBlock eventType
           = Inl (Error ''Protocol token pool not found'')"
proof -
  from promiseAll_member_Inl[of l logs "aaveMovement (Inr md)", OF l aaveMovement_absent[OF d n]]
  obtain e where e: "promiseAll (aaveMovement (Inr md)) logs = Inl e" by blast
  from promiseAll_Inl_D[OF e] have "e = Error ''Protocol token pool not found''"
    by (auto dest: aaveMovement_Inl_D)
  with q e show ?thesis by (simp add: getMovements_aave_def)
qed

lemma getMovements_aave_unlistedMarketChain:
  "getMovements_aave unlistedMarketChain (Inr metadata0) ''0xU'' ''0xC'' 0 100 supplied
     = Inl (Error ''Protocol token pool not found'')"
proof (rule getMovements_aave_absent)
  show "queryFilter unlistedMarketChain (aaveFilter supplied ''0xU'' ''0xC'') 0 100
          = Inr [unlistedLog]"
    by (simp add: unlistedMarketChain_def)
  show "unlistedLog \<in> set [unlistedLog]" by simp
  show "args unlistedLog = Some \<lparr>poolToken = ''0xC'', amount = 12\<rparr>"
    by (simp add: unlistedLog_def)
  show "getProp metadata0 (poolToken \<lparr>poolToken = ''0xC'', amount = 12\<rparr>) = None"
    by (simp add: getProp_metadata0_C)
qed

lemma getProp_metadata0_constructor: "getProp metadata0 ''constructor'' = Some Foreign"
  by (simp add: getProp_def metadata0_def ObjectPrototypeNames_def List.member_iff)

text \<open>
  Claim C3 fails on the code, in two places. The address \<open>0xC\<close> is not a key of the
  mapping of the small chain, and no log of the chain names it. The Compound base and
  the vault adapter reject a movement query for it with
  \<open>Error('Protocol token pool not found')\<close>; the Aave base, whose \<open>getMovements\<close>
  never looks the queried address up, returns the empty list. The name
  \<open>constructor\<close> is not a key of the mapping either, but the plain object inherits a
  value under it: the pool lookup returns that value, and the Compound base's movement
  query for it returns the empty list.
\<close>

theorem unlisted_address_not_rejected:
  "map_of (own metadata0) ''0xC'' = None \<and>
   getProp metadata0 ''0xC'' = None \<and>
   getMovements_compound chain0 (Inr metadata0) ''0xU'' ''0xC'' 0 100 supplied
     = Inl (Error ''Protocol token pool not found'') \<and>
   getDeposits_vault chain0 (Inr metadata0) ''0xU'' 0 100 ''0xC''
     = Inl (Error ''Protocol token pool not found'') \<and>
   queryFilter chain0 (aaveFilter supplied ''0xU'' ''0xC'') 0 100 = Inr [] \<and>
   getMovements_aave chain0 (Inr metadata0) ''0xU'' ''0xC'' 0 100 supplied = Inr [] \<and>
   map_of (own metadata0) ''constructor'' = None \<and>
   fetchPoolMetadata (Inr metadata0) ''constructor'' = Inr Foreign \<and>
   getMovements_compound chain0 (Inr metadata0) ''0xU'' ''constructor'' 0 100 supplied = Inr []"
proof (intro conjI)
  show "map_of (own metadata0) ''0xC'' = None"
    by (simp add: metadata0_def)
  show "getProp metadata0 ''0xC'' = None"
    by (rule getProp_metadata0_C)
  show "getMovements_compound chain0 (Inr metadata0) ''0xU'' ''0xC'' 0 100 supplied
     = Inl (Error ''Protocol token pool not found'')"
    by (rule undefined_lookups_reject[OF getProp_metadata0_C])
  show "getDeposits_vault chain0 (Inr metadata0) ''0xU'' 0 100 ''0xC''
     = Inl (Error ''Protocol token pool not found'')"
    unfolding getDeposits_vault_eq by (rule undefined_lookups_reject[OF getProp_metadata0_C])
  show q: "queryFilter chain0 (aaveFilter supplied ''0xU'' ''0xC'') 0 100 = Inr []"
    by (simp add: chain0_def aaveFilter_def)
  show "getMovements_aave chain0 (Inr metadata0) ''0xU'' ''0xC'' 0 100 supplied = Inr []"
    by (simp add: getMovements_aave_def q List.map_filter_simps)
  show "map_of (own metadata0) ''constructor'' = None"
    by (simp add: metadata0_def)
  show f: "fetchPoolMetadata (Inr metadata0) ''constructor'' = Inr Foreign"
    by (simp add: fetchPoolMetadata_present getProp_metadata0_constructor)
  show "getMovements_compound chain0 (Inr metadata0) ''0xU'' ''constructor'' 0 100 supplied = Inr []"
    by (simp add: getMovements_compound_def fetchProtocolTokenMetadata_def
        fetchUnderlyingTokensMetadata_def f compoundFilter_def chain0_def)
qed

section \<open>Movements: what the three bases return\<close>


lemma getMovements_compound_Inr_D:
  assumes "getMovements_compound p bm userAddress a fromBlock toBlock eventType = Inr ms"
  shows "\<exists>lk logs. fetchPoolMetadata bm a = Inr lk \<and>
           queryFilter p (compoundFilter eventType userAddress a) fromBlock toBlock = Inr logs \<and>
           list_all2 (\<lambda>l m. \<exists>d. args l = Some d \<and>
                         m = \<lparr>blockNumber = blockNumber l, transactionHash = transactionHash l,
                              movementToken = protocolTokenOf lk,
                              movementTokens = [spreadUnderlying (underlyingTokenOf lk) (amount d)]\<rparr>)
             logs ms"
proof -
  from assms obtain lk logs where
    lk: "fetchPoolMetadata bm a = Inr lk" and
    q: "queryFilter p (compoundFilter eventType userAddress a) fromBlock toBlock = Inr logs" and
    r: "promiseAll
          (\<lambda>event. case args event of
                     None \<Rightarrow> Inl TypeError
                   | Some eventData \<Rightarrow>
                       Inr \<lparr>blockNumber = blockNumber event,
                            transactionHash = transactionHash event,
                            movementToken = protocolTokenOf lk,
                            movementTokens = [spreadUnderlying (hd [underlyingTokenOf lk]) (amount eventData)]\<rparr>)
          logs = Inr ms"
    unfolding getMovements_compound_def fetchProtocolTokenMetadata_def
      fetchUnderlyingTokensMetadata_def await_eq_Inr
    by auto
  have "list_all2 (\<lambda>l m. \<exists>d. args l = Some d \<and>
                         m = \<lparr>blockNumber = blockNumber l, transactionHash = transactionHash l,
                              movementToken = protocolTokenOf lk,
                              movementTokens = [spreadUnderlying (underlyingTokenOf lk) (amount d)]\<rparr>)
             logs ms"
    using promiseAll_Inr_D[OF r]
    by (rule list_all2_mono) (auto split: option.splits)
  with lk q show ?thesis by blast
qed

lemma aaveMovement_Some_D:
  assumes "aaveMovement bm l = Inr (Some m)"
  shows "\<exists>d lk. args l = Some d \<and> fetchPoolMetadata bm (poolToken d) = Inr lk \<and>
           m = \<lparr>blockNumber = blockNumber l, transactionHash = transactionHash l,
                movementToken = protocolTokenOf lk,
                movementTokens = [spreadUnderlying (underlyingTokenOf lk) (amount d)]\<rparr>"
  using assms
  by (auto simp: aaveMovement_def fetchProtocolTokenMetadata_def
      fetchUnderlyingTokensMetadata_def await_eq_Inr split: option.splits)

lemma getMovements_aave_Inr_D:
  assumes "getMovements_aave p bm userAddress a fromBlock toBlock eventType = Inr ms"
  shows "\<exists>logs rs. queryFilter p (aaveFilter eventType userAddress a) fromBlock toBlock = Inr logs \<and>
           list_all2 (\<lambda>l r. aaveMovement bm l = Inr r) logs rs \<and>
           ms = List.map_filter (\<lambda>movement. movement) rs"
proof -
  from assms obtain logs rs where
    q: "queryFilter p (aaveFilter eventType userAddress a) fromBlock toBlock = Inr logs" and
    r: "promiseAll (aaveMovement bm) logs = Inr rs" and
    m: "ms = List.map_filter (\<lambda>movement. movement) rs"
    unfolding getMovements_aave_def await_eq_Inr by auto
  with promiseAll_Inr_D[OF r] show ?thesis by blast
qed

lemma getMovements_aave_member_D:
  assumes "getMovements_aave p bm userAddress a fromBlock toBlock eventType = Inr ms"
    and "queryFilter p (aaveFilter eventType userAddress a) fromBlock toBlock = Inr logs"
    and "m \<in> set ms"
  shows "\<exists>l\<in>set logs. \<exists>d lk. args l = Some d \<and> fetchPoolMetadata bm (poolToken d) = Inr lk \<and>
           m = \<lparr>blockNumber = blockNumber l, transactionHash = transactionHash l,
                movementToken = protocolTokenOf lk,
                movementTokens = [spreadUnderlying (underlyingTokenOf lk) (amount d)]\<rparr>"
proof -
  from getMovements_aave_Inr_D[OF assms(1)] assms(2) obtain rs where
    r: "list_all2 (\<lambda>l r. aaveMovement bm l = Inr r) logs rs" and
    m: "ms = List.map_filter (\<lambda>movement. movement) rs"
    by auto
  have "Some m \<in> set rs"
    using assms(3) unfolding m by (auto simp: List.map_filter_def)
  from list_all2_in_set2[OF r this] obtain l where
    "l \<in> set logs" "aaveMovement bm l = Inr (Some m)" by blast
  with aaveMovement_Some_D[of bm l m] show ?thesis by blast
qed



lemma bitLength_deposit: "bitLength 9007199254740993 = 54"
  by (simp add: bitLength.simps)

lemma Number_of_BigInt_deposit:
  "Number_of_BigInt 9007199254740993 = Finite 9007199254740992"
  by (simp add: Number_of_BigInt_def roundTiesToEven53_def bitLength_deposit)



lemma getMovements_vault_chain0:
  "getMovements_vault chain0 (Inr metadata0) ''0xU'' 0 100 deposit ''0xA'' = Inr [depositMovement]"
  by (simp add: getMovements_vault_def getProtocolToken_def getUnderlyingToken_def
      fetchPoolMetadata_metadata0_A vaultFilter_def chain0_def depositLog_def
      depositMovement_def Number_of_BigInt_deposit BigInt_of_Number_def)


section \<open>The protocol token of a movement\<close>


lemma poolTopic_compoundFilter [simp]:
  "poolTopic (compoundFilter eventType userAddress a) = Some a"
  by (cases eventType) (simp_all add: compoundFilter_def)






section \<open>The amount of a movement\<close>

text \<open>
  The pool bases copy \<open>_amount\<close> of each log into the movement. The vault adapter
  sends \<open>assets\<close> through \<open>Number\<close> and back: the amount is kept when it has at
  most 53 binary digits.
\<close>

lemma bitLength_bound: "n < 2 ^ bitLength n"
proof (induction n rule: bitLength.induct)
  case (1 n)
  show ?case
  proof (cases "n \<le> 0")
    case True
    then show ?thesis by (simp add: bitLength.simps)
  next
    case False
    with 1 have ih: "n div 2 < 2 ^ bitLength (n div 2)" by simp
    have "n < 2 * (n div 2) + 2" by linarith
    also have "\<dots> \<le> 2 * 2 ^ bitLength (n div 2)" using ih by linarith
    finally show ?thesis using False by (simp add: bitLength.simps[of n])
  qed
qed

lemma Number_roundtrip_exact:
  assumes "bitLength \<bar>b\<bar> \<le> 53"
  shows "BigInt_of_Number (Number_of_BigInt b) = Inr b"
proof -
  have "\<bar>b\<bar> < 2 ^ bitLength \<bar>b\<bar>" by (rule bitLength_bound)
  also have "\<dots> \<le> (2::int) ^ 1024"
    using assms by (intro power_increasing) auto
  finally have "\<not> (2::int) ^ 1024 \<le> \<bar>b\<bar>" by simp
  then show ?thesis
    using assms
    by (auto simp: Number_of_BigInt_def roundTiesToEven53_def BigInt_of_Number_def Let_def)
qed

lemma compound_movements_carry_amount:
  assumes "getMovements_compound p bm userAddress a fromBlock toBlock eventType = Inr ms"
  shows "\<exists>logs. queryFilter p (compoundFilter eventType userAddress a) fromBlock toBlock = Inr logs \<and>
           list_all2 (\<lambda>l m. \<exists>d. args l = Some d \<and>
                         map entryBalanceRaw (movementTokens m) = [amount d]) logs ms"
proof -
  from getMovements_compound_Inr_D[OF assms] obtain lk :: PoolLookup and lgs :: "PoolEventLog list" where
    q: "queryFilter p (compoundFilter eventType userAddress a) fromBlock toBlock = Inr lgs" and
    l: "list_all2 (\<lambda>l m. \<exists>d. args l = Some d \<and>
                         m = \<lparr>blockNumber = blockNumber l, transactionHash = transactionHash l,
                              movementToken = protocolTokenOf lk,
                              movementTokens = [spreadUnderlying (underlyingTokenOf lk) (amount d)]\<rparr>)
             lgs ms"
    by blast
  have "list_all2 (\<lambda>l m. \<exists>d. args l = Some d \<and>
                         map entryBalanceRaw (movementTokens m) = [amount d]) lgs ms"
    using l by (rule list_all2_mono) auto
  with q show ?thesis by blast
qed

lemma aave_movements_carry_amount:
  assumes "getMovements_aave p bm userAddress a fromBlock toBlock eventType = Inr ms"
    and "queryFilter p (aaveFilter eventType userAddress a) fromBlock toBlock = Inr logs"
    and "m \<in> set ms"
  shows "\<exists>l\<in>set logs. \<exists>d. args l = Some d \<and> blockNumber m = blockNumber l \<and>
           transactionHash m = transactionHash l \<and>
           map entryBalanceRaw (movementTokens m) = [amount d]"
  using getMovements_aave_member_D[OF assms] by fastforce

text \<open>
  Claim C1 fails on the vault adapter. The deposit log of the small chain carries
  \<open>assets = 2^53 + 1 = 9007199254740993\<close>; the movement \<open>getDeposits\<close> returns
  for it carries \<open>9007199254740992\<close>.
\<close>

theorem vault_movement_amount_rounded:
  "vaultQueryFilter chain0 ''0xA'' (vaultFilter deposit ''0xU'') 0 100 = Inr [depositLog] \<and>
   map_option assets (vaultArgs depositLog) = Some 9007199254740993 \<and>
   getDeposits_vault chain0 (Inr metadata0) ''0xU'' 0 100 ''0xA'' = Inr [depositMovement] \<and>
   movementTokens depositMovement = [Full (underlyingEntry undA 9007199254740992)] \<and>
   map entryBalanceRaw (movementTokens depositMovement) = [9007199254740992]"
proof (intro conjI)
  show "vaultQueryFilter chain0 ''0xA'' (vaultFilter deposit ''0xU'') 0 100 = Inr [depositLog]"
    by (simp add: chain0_def vaultFilter_def)
  show "map_option assets (vaultArgs depositLog) = Some 9007199254740993"
    by (simp add: depositLog_def)
  show "getDeposits_vault chain0 (Inr metadata0) ''0xU'' 0 100 ''0xA'' = Inr [depositMovement]"
    by (simp only: getDeposits_vault_eq getMovements_vault_chain0)
  show "movementTokens depositMovement = [Full (underlyingEntry undA 9007199254740992)]"
    by (simp add: depositMovement_def)
  show "map entryBalanceRaw (movementTokens depositMovement) = [9007199254740992]"
    by (simp add: depositMovement_def)
qed

section \<open>Total value locked\<close>

lemma compound_tvl_token:
  "await
     (if positionType = Supply
      then await (getTotalMarketSupply p (address tok) atBlock)
             (\<lambda>(p2pSupply, poolSupply). Inr (poolSupply + p2pSupply))
      else await (getTotalMarketBorrow p (address tok) atBlock)
             (\<lambda>(p2pBorrow, poolBorrow). Inr (poolBorrow + p2pBorrow)))
     (\<lambda>totalValueRaw.
        await (exchangeRateStored p (address tok) atBlock)
          (\<lambda>exchangeRate.
             await (wadDiv totalValueRaw exchangeRate)
               (\<lambda>divided.
                  Inr \<lparr>address = address tok, name = name tok,
                       symbol = symbol tok, decimals = decimals tok,
                       tvlType = Protocol, totalSupplyRaw = divided\<rparr>))) = Inr tvl
   \<longleftrightarrow> (\<exists>p2p pool rate divided.
          lensTotals p positionType (address tok) atBlock = Inr (p2p, pool) \<and>
          exchangeRateStored p (address tok) atBlock = Inr rate \<and>
          wadDiv (pool + p2p) rate = Inr divided \<and>
          tvl = tvlEntry tok divided)"
  by (auto simp: await_eq_Inr lensTotals_def tvlEntry_def)

lemma aave_tvl_token:
  "await
     (if positionType = Supply
      then await (getTotalMarketSupply p (address tok) atBlock)
             (\<lambda>(poolSupply, p2pSupply). Inr (poolSupply + p2pSupply))
      else await (getTotalMarketBorrow p (address tok) atBlock)
             (\<lambda>(poolBorrow, p2pBorrow). Inr (poolBorrow + p2pBorrow)))
     (\<lambda>totalValueRaw.
        Inr \<lparr>address = address tok, name = name tok,
             symbol = symbol tok, decimals = decimals tok,
             tvlType = Protocol, totalSupplyRaw = totalValueRaw\<rparr>) = Inr tvl
   \<longleftrightarrow> (\<exists>pool p2p.
          lensTotals p positionType (address tok) atBlock = Inr (pool, p2p) \<and>
          tvl = tvlEntry tok (pool + p2p))"
  by (auto simp: await_eq_Inr lensTotals_def tvlEntry_def)

lemma getTotalValueLocked_compound_Inr_iff:
  "getTotalValueLocked_compound wadDiv p positionType bm atBlock = Inr tvls \<longleftrightarrow>
     (\<exists>toks. getProtocolTokens bm = Inr toks \<and>
        list_all2 (\<lambda>tok tvl. \<exists>p2p pool rate divided.
                      lensTotals p positionType (address tok) atBlock = Inr (p2p, pool) \<and>
                      exchangeRateStored p (address tok) atBlock = Inr rate \<and>
                      wadDiv (pool + p2p) rate = Inr divided \<and>
                      tvl = tvlEntry tok divided) toks tvls)"
  unfolding getTotalValueLocked_compound_def await_eq_Inr
  by (auto simp: compound_tvl_token dest!: promiseAll_Inr_D intro!: promiseAll_Inr_I)

lemma getTotalValueLocked_aave_Inr_iff:
  "getTotalValueLocked_aave p positionType bm atBlock = Inr tvls \<longleftrightarrow>
     (\<exists>toks. getProtocolTokens bm = Inr toks \<and>
        list_all2 (\<lambda>tok tvl. \<exists>pool p2p.
                      lensTotals p positionType (address tok) atBlock = Inr (pool, p2p) \<and>
                      tvl = tvlEntry tok (pool + p2p)) toks tvls)"
  unfolding getTotalValueLocked_aave_def await_eq_Inr
  by (auto simp: aave_tvl_token dest!: promiseAll_Inr_D intro!: promiseAll_Inr_I)

text \<open>
  Claim C2. For every market token of the mapping, \<open>getTotalValueLocked\<close> returns
  \<open>totalSupplyRaw\<close> equal to the sum of the two totals (pool side and peer-to-peer
  side) the lens reports for the token at the block: on the Aave base the sum itself,
  on the Compound base the sum wad-divided by the cToken's stored exchange rate. The
  call returns exactly when every read is answered (and, on the Compound base,
  \<open>wadDiv\<close> returns).
\<close>

theorem tvl_is_pool_plus_p2p:
  "(getTotalValueLocked_compound wadDiv p positionType bm atBlock = Inr tvls \<longleftrightarrow>
     (\<exists>toks. getProtocolTokens bm = Inr toks \<and>
        list_all2 (\<lambda>tok tvl. \<exists>p2p pool rate divided.
                      lensTotals p positionType (address tok) atBlock = Inr (p2p, pool) \<and>
                      exchangeRateStored p (address tok) atBlock = Inr rate \<and>
                      wadDiv (pool + p2p) rate = Inr divided \<and>
                      tvl = tvlEntry tok divided) toks tvls)) \<and>
   (getTotalValueLocked_aave p positionType bm atBlock = Inr atvls \<longleftrightarrow>
     (\<exists>toks. getProtocolTokens bm = Inr toks \<and>
        list_all2 (\<lambda>tok tvl. \<exists>pool p2p.
                      lensTotals p positionType (address tok) atBlock = Inr (pool, p2p) \<and>
                      tvl = tvlEntry tok (pool + p2p)) toks atvls))"
  using getTotalValueLocked_compound_Inr_iff getTotalValueLocked_aave_Inr_iff by blast

lemma lensTotals_chain0: "lensTotals chain0 Supply a None = Inr (30, 70)"
  by (simp add: lensTotals_def chain0_def)

lemma exchangeRateStored_chain0: "exchangeRateStored chain0 a None = Inr 2000000000000000000"
  by (simp add: chain0_def)

lemma wadDiv0_example: "wadDiv0 (70 + 30) 2000000000000000000 = Inr 50"
  by (simp add: wadDiv0_def)

theorem tvl_is_pool_plus_p2p_witness:
  "getTotalValueLocked_compound wadDiv0 chain0 Supply (Inr metadata0) None
     = Inr [tvlEntry tokA 50, tvlEntry tokB 50] \<and>
   getTotalValueLocked_aave chain0 Supply (Inr metadata0) None
     = Inr [tvlEntry tokA 100, tvlEntry tokB 100] \<and>
   lensTotals chain0 Supply (address tokA) None = Inr (30, 70) \<and>
   exchangeRateStored chain0 (address tokA) None = Inr 2000000000000000000 \<and>
   wadDiv0 (70 + 30) 2000000000000000000 = Inr 50"
proof -
  have toks: "getProtocolTokens (Inr metadata0) = Inr [tokA, tokB]"
    by (rule getProtocolTokens_metadata0)
  have c: "\<exists>p2p pool rate divided.
             lensTotals chain0 Supply (address tok) None = Inr (p2p, pool) \<and>
             exchangeRateStored chain0 (address tok) None = Inr rate \<and>
             wadDiv0 (pool + p2p) rate = Inr divided \<and>
             tvlEntry tok 50 = tvlEntry tok divided" for tok
    using lensTotals_chain0 exchangeRateStored_chain0 wadDiv0_example by blast
  have a: "\<exists>pool p2p. lensTotals chain0 Supply (address tok) None = Inr (pool, p2p) \<and>
             tvlEntry tok 100 = tvlEntry tok (pool + p2p)" for tok
    using lensTotals_chain0[of "address tok"] by force
  show ?thesis
    using tvl_is_pool_plus_p2p
      [of wadDiv0 chain0 Supply "Inr metadata0" None "[tvlEntry tokA 50, tvlEntry tokB 50]"
          "[tvlEntry tokA 100, tvlEntry tokB 100]"]
      toks c a lensTotals_chain0 exchangeRateStored_chain0 wadDiv0_example
    by simp
qed

section \<open>Metadata construction: a failing underlying-asset call\<close>

lemma supplyTokenAddress_compound_eq:
  "supplyTokenAddress_compound p m = orZeroAddress (underlying p) m"
  by (simp add: supplyTokenAddress_compound_def orZeroAddress_def truthy_all split: sum.splits)

lemma supplyTokenAddress_aave_eq:
  "supplyTokenAddress_aave p m = orZeroAddress (UNDERLYING_ASSET_ADDRESS p) m"
  by (simp add: supplyTokenAddress_aave_def orZeroAddress_def truthy_all split: sum.splits)

lemma orZeroAddress_idem: "orZeroAddress (orZeroAddress call) = orZeroAddress call"
  by (rule ext) (simp add: orZeroAddress_def split: sum.splits)

lemma marketEntry_compound_recovered:
  "marketEntry_compound (p\<lparr>underlying := orZeroAddress (underlying p)\<rparr>) = marketEntry_compound p"
  by (rule ext)
    (simp add: marketEntry_compound_def supplyTokenAddress_compound_eq orZeroAddress_idem)

lemma marketEntry_aave_recovered:
  "marketEntry_aave (p\<lparr>UNDERLYING_ASSET_ADDRESS := orZeroAddress (UNDERLYING_ASSET_ADDRESS p)\<rparr>)
     = marketEntry_aave p"
  by (rule ext)
    (simp add: marketEntry_aave_def supplyTokenAddress_aave_eq orZeroAddress_idem)

lemma enumerate_compound_recovered:
  "enumerate_compound (p\<lparr>underlying := orZeroAddress (underlying p)\<rparr>) = enumerate_compound p"
  by (simp add: enumerate_compound_def marketEntry_compound_recovered completionOrder_def)

lemma buildMetadata_compound_recovered:
  "buildMetadata_compound (p\<lparr>underlying := orZeroAddress (underlying p)\<rparr>) this
     = buildMetadata_compound p this"
  unfolding buildMetadata_compound_def enumerate_compound_recovered by (rule refl)

lemma buildMetadata_aave_recovered:
  "buildMetadata_aave (p\<lparr>UNDERLYING_ASSET_ADDRESS := orZeroAddress (UNDERLYING_ASSET_ADDRESS p)\<rparr>)
     = buildMetadata_aave p"
  by (simp add: buildMetadata_aave_def marketEntry_aave_recovered completionOrder_def)

lemma marketEntry_compound_failed:
  "underlying p m = Inl e \<Longrightarrow>
   marketEntry_compound p m =
     await (getTokenMetadata p m) (\<lambda>pt.
       await (getTokenMetadata p ZERO_ADDRESS) (\<lambda>ut.
         Inr (address pt, \<lparr>protocolToken = pt, underlyingToken = ut\<rparr>)))"
  by (simp add: marketEntry_compound_def supplyTokenAddress_compound_eq orZeroAddress_def)

lemma marketEntry_aave_failed:
  "UNDERLYING_ASSET_ADDRESS p m = Inl e \<Longrightarrow>
   marketEntry_aave p m =
     await (getTokenMetadata p m) (\<lambda>pt.
       await (getTokenMetadata p ZERO_ADDRESS) (\<lambda>ut.
         Inr (address pt, \<lparr>protocolToken = pt, underlyingToken = ut\<rparr>)))"
  by (simp add: marketEntry_aave_def supplyTokenAddress_aave_eq orZeroAddress_def)

lemma marketEntry_compound_total:
  assumes "orZeroAddress (underlying p) m = Inr s"
    and "getTokenMetadata p m = Inr pt" and "getTokenMetadata p s = Inr ut"
  shows "marketEntry_compound p m = Inr (address pt, \<lparr>protocolToken = pt, underlyingToken = ut\<rparr>)"
  using assms by (simp add: marketEntry_compound_def supplyTokenAddress_compound_eq)

lemma marketEntry_aave_total:
  assumes "orZeroAddress (UNDERLYING_ASSET_ADDRESS p) m = Inr s"
    and "getTokenMetadata p m = Inr pt" and "getTokenMetadata p s = Inr ut"
  shows "marketEntry_aave p m = Inr (address pt, \<lparr>protocolToken = pt, underlyingToken = ut\<rparr>)"
  using assms by (simp add: marketEntry_aave_def supplyTokenAddress_aave_eq)

lemma enumerate_compound_total:
  assumes "getAllMarkets p = Inr markets"
    and "\<forall>m\<in>set markets. \<exists>s pt ut. orZeroAddress (underlying p) m = Inr s \<and>
           getTokenMetadata p m = Inr pt \<and> getTokenMetadata p s = Inr ut"
  shows "\<exists>md. enumerate_compound p = Inr md"
proof -
  have "\<exists>entry. marketEntry_compound p m = Inr entry"
    if "m \<in> set (completionOrder p (\<lambda>m. m) markets)" for m
    using assms(2) that marketEntry_compound_total[of p m] by auto
  from promiseAll_total[of "completionOrder p (\<lambda>m. m) markets" "marketEntry_compound p", OF this]
  obtain entries where
    "promiseAll (marketEntry_compound p) (completionOrder p (\<lambda>m. m) markets) = Inr entries"
    by blast
  with assms(1) show ?thesis by (simp add: enumerate_compound_def)
qed

lemma buildMetadata_aave_total:
  assumes "getMarketsCreated p = Inr markets"
    and "\<forall>m\<in>set markets. \<exists>s pt ut. orZeroAddress (UNDERLYING_ASSET_ADDRESS p) m = Inr s \<and>
           getTokenMetadata p m = Inr pt \<and> getTokenMetadata p s = Inr ut"
  shows "\<exists>md. buildMetadata_aave p = Inr md"
proof -
  have "\<exists>entry. marketEntry_aave p m = Inr entry"
    if "m \<in> set (completionOrder p (\<lambda>m. m) markets)" for m
    using assms(2) that marketEntry_aave_total[of p m] by auto
  from promiseAll_total[of "completionOrder p (\<lambda>m. m) markets" "marketEntry_aave p", OF this]
  obtain entries where
    "promiseAll (marketEntry_aave p) (completionOrder p (\<lambda>m. m) markets) = Inr entries"
    by blast
  with assms(1) show ?thesis by (simp add: buildMetadata_aave_def)
qed

text \<open>What a lookup finds in the object after the assignments.\<close>

lemma map_of_setOwn: "map_of (setOwn m k v) k' = (if k' = k then Some v else map_of m k')"
  by (induction m k v rule: setOwn.induct) auto

lemma getProp_setProp_same: "getProp (setProp obj k v) k = Some (Entry v)"
proof (cases "map_of (own obj) k")
  case None
  then show ?thesis
    by (cases "k = ''__proto__''") (simp_all add: getProp_def setProp_def map_of_setOwn)
next
  case (Some y)
  then show ?thesis
    by (simp add: getProp_def setProp_def map_of_setOwn)
qed

lemma getProp_Entry_iff:
  "getProp obj k = Some (Entry x) \<longleftrightarrow>
     map_of (own obj) k = Some x \<or>
     (map_of (own obj) k = None \<and> k = ''__proto__'' \<and> inheritsFrom obj = Some x)"
proof (cases "map_of (own obj) k")
  case None
  show ?thesis
  proof (cases "k = ''__proto__''")
    case True
    with None show ?thesis
      by (cases "inheritsFrom obj") (simp_all add: getProp_def)
  next
    case False
    with None show ?thesis by (simp add: getProp_def split: option.splits)
  qed
next
  case (Some y)
  then show ?thesis by (simp add: getProp_def)
qed

lemma getProp_setProp_other:
  assumes "k' \<noteq> k" and "getProp obj k' = Some (Entry x)"
  shows "getProp (setProp obj k v) k' = Some (Entry x)"
proof -
  have o: "map_of (own (setProp obj k v)) k' = map_of (own obj) k'"
    using assms(1) by (simp add: setProp_def map_of_setOwn)
  have i: "inheritsFrom (setProp obj k v) = inheritsFrom obj" if "k' = ''__proto__''"
    using assms(1) that by (simp add: setProp_def)
  from assms(2) have "map_of (own obj) k' = Some x \<or>
     (map_of (own obj) k' = None \<and> k' = ''__proto__'' \<and> inheritsFrom obj = Some x)"
    by (simp only: getProp_Entry_iff)
  with o i have "map_of (own (setProp obj k v)) k' = Some x \<or>
     (map_of (own (setProp obj k v)) k' = None \<and> k' = ''__proto__'' \<and>
      inheritsFrom (setProp obj k v) = Some x)"
    by metis
  then show ?thesis by (simp only: getProp_Entry_iff)
qed

lemma getProp_foldl_setProp:
  "(k, v) \<in> set es \<Longrightarrow>
   \<exists>v'. (k, v') \<in> set es \<and>
        getProp (foldl (\<lambda>obj (k, v). setProp obj k v) obj es) k = Some (Entry v')"
proof (induction es rule: rev_induct)
  case Nil
  then show ?case by simp
next
  case (snoc x es)
  obtain k1 v1 where x: "x = (k1, v1)" by (cases x)
  show ?case
  proof (cases "k = k1")
    case True
    then show ?thesis
      using x by (auto simp: getProp_setProp_same)
  next
    case False
    with snoc.prems x have "(k, v) \<in> set es" by auto
    from snoc.IH[OF this] obtain v' where
      "(k, v') \<in> set es"
      "getProp (foldl (\<lambda>obj (k, v). setProp obj k v) obj es) k = Some (Entry v')"
      by blast
    then show ?thesis
      using False x by (auto simp: getProp_setProp_other)
  qed
qed

lemma list_all2_in_set1:
  "list_all2 P xs ys \<Longrightarrow> x \<in> set xs \<Longrightarrow> \<exists>y\<in>set ys. P x y"
  by (induction xs ys rule: list_all2_induct) auto

lemma assigned_entry_recorded:
  assumes ents: "list_all2 (\<lambda>x e. entry x = Inr e) xs entries"
    and x: "x \<in> set xs" and e: "entry x = Inr (k, v)"
  shows "\<exists>v'. getProp (assignAll entries) k = Some (Entry v') \<and>
           (\<exists>x'\<in>set xs. entry x' = Inr (k, v'))"
proof -
  from list_all2_in_set1[OF ents x] e have "(k, v) \<in> set entries" by auto
  from getProp_foldl_setProp[OF this, of emptyObject] obtain v' where
    v': "(k, v') \<in> set entries" and g: "getProp (assignAll entries) k = Some (Entry v')"
    unfolding assignAll_def by blast
  from list_all2_in_set2[OF ents v'] g show ?thesis by blast
qed

lemma enumerate_compound_Inr_D:
  assumes "enumerate_compound p = Inr md" and "getAllMarkets p = Inr markets"
  shows "\<exists>entries. list_all2 (\<lambda>m e. marketEntry_compound p m = Inr e)
                     (completionOrder p (\<lambda>m. m) markets) entries \<and>
           md = assignAll entries"
  using assms
  by (auto simp: enumerate_compound_def await_eq_Inr dest: promiseAll_Inr_D)

lemma buildMetadata_aave_Inr_D:
  assumes "buildMetadata_aave p = Inr md" and "getMarketsCreated p = Inr markets"
  shows "\<exists>entries. list_all2 (\<lambda>m e. marketEntry_aave p m = Inr e)
                     (completionOrder p (\<lambda>m. m) markets) entries \<and>
           md = assignAll entries"
  using assms
  by (auto simp: buildMetadata_aave_def await_eq_Inr dest: promiseAll_Inr_D)

lemma marketEntry_compound_key:
  "marketEntry_compound p m = Inr (k, v) \<Longrightarrow> \<exists>t. getTokenMetadata p m = Inr t \<and> k = address t"
  by (auto simp: marketEntry_compound_def await_eq_Inr)

lemma marketEntry_aave_key:
  "marketEntry_aave p m = Inr (k, v) \<Longrightarrow> \<exists>t. getTokenMetadata p m = Inr t \<and> k = address t"
  by (auto simp: marketEntry_aave_def await_eq_Inr)

text \<open>
  A market whose underlying-asset call failed is in the mapping the construction
  returns: the key of its entry holds the entry of a market with that key, and, when
  the metadata of every market of the registry carries the market's own address, the
  entry of the market itself, with the metadata of the zero address as underlying
  token.
\<close>

lemma failed_market_recorded:
  assumes ents: "list_all2 (\<lambda>x e. entry x = Inr e) (completionOrder p (\<lambda>m. m) markets) entries"
    and m: "m \<in> set markets"
    and failed: "entry m =
           await (getTokenMetadata p m) (\<lambda>pt.
             await (getTokenMetadata p ZERO_ADDRESS) (\<lambda>ut.
               Inr (address pt, \<lparr>protocolToken = pt, underlyingToken = ut\<rparr>)))"
    and key: "\<And>m' k v. entry m' = Inr (k, v) \<Longrightarrow> \<exists>t. getTokenMetadata p m' = Inr t \<and> k = address t"
  shows "\<exists>pt ut. getTokenMetadata p m = Inr pt \<and> getTokenMetadata p ZERO_ADDRESS = Inr ut \<and>
           (\<exists>pm. fetchPoolMetadata (Inr (assignAll entries)) (address pt) = Inr (Entry pm) \<and>
                 (\<exists>m'\<in>set markets. entry m' = Inr (address pt, pm))) \<and>
           ((\<forall>m'\<in>set markets. \<forall>t. getTokenMetadata p m' = Inr t \<longrightarrow> address t = m') \<longrightarrow>
              fetchPoolMetadata (Inr (assignAll entries)) m
                = Inr (Entry \<lparr>protocolToken = pt, underlyingToken = ut\<rparr>))"
proof -
  have mo: "m \<in> set (completionOrder p (\<lambda>m. m) markets)" using m by simp
  from list_all2_in_set1[OF ents mo] obtain e0 where e0: "entry m = Inr e0" by blast
  from e0 have "await (getTokenMetadata p m) (\<lambda>pt.
             await (getTokenMetadata p ZERO_ADDRESS) (\<lambda>ut.
               Inr (address pt, \<lparr>protocolToken = pt, underlyingToken = ut\<rparr>))) = Inr e0"
    unfolding failed .
  then obtain pt ut where
    pt: "getTokenMetadata p m = Inr pt" and ut: "getTokenMetadata p ZERO_ADDRESS = Inr ut" and
    e0': "e0 = (address pt, \<lparr>protocolToken = pt, underlyingToken = ut\<rparr>)"
    unfolding await_eq_Inr by auto
  from e0 e0' have
    em: "entry m = Inr (address pt, \<lparr>protocolToken = pt, underlyingToken = ut\<rparr>)"
    by simp
  from assigned_entry_recorded[OF ents mo em] obtain pm m' where
    g: "getProp (assignAll entries) (address pt) = Some (Entry pm)" and
    m': "m' \<in> set markets" and em': "entry m' = Inr (address pt, pm)"
    by auto
  have 1: "\<exists>pm. fetchPoolMetadata (Inr (assignAll entries)) (address pt) = Inr (Entry pm) \<and>
                 (\<exists>m'\<in>set markets. entry m' = Inr (address pt, pm))"
    using g m' em' by (auto simp: fetchPoolMetadata_present)
  have 2: "fetchPoolMetadata (Inr (assignAll entries)) m
                = Inr (Entry \<lparr>protocolToken = pt, underlyingToken = ut\<rparr>)"
    if own: "\<forall>m'\<in>set markets. \<forall>t. getTokenMetadata p m' = Inr t \<longrightarrow> address t = m'"
  proof -
    from own m pt have a: "address pt = m" by blast
    from key[OF em'] obtain t where t: "getTokenMetadata p m' = Inr t" "address pt = address t"
      by blast
    with own m' have "m' = address pt" by auto
    with a have "m' = m" by simp
    with em em' have "pm = \<lparr>protocolToken = pt, underlyingToken = ut\<rparr>" by simp
    with g a show ?thesis by (simp add: fetchPoolMetadata_present)
  qed
  from pt ut 1 2 show ?thesis by blast
qed

text \<open>
  Claim C7. When the underlying-asset call of a market fails during metadata
  construction, the handler returns the zero address: the market's entry is built from
  the metadata of the market and the metadata fetched for the zero address. The failure
  is not propagated: the construction gives what it gives on a chain where each failing
  underlying-asset call answers with the zero address instead, and it returns a mapping
  whenever the registry call and the metadata fetches are answered, however many
  underlying-asset calls fail. The market is recorded in the mapping that is returned:
  the key of its entry holds the entry of a market of the registry with that key, and,
  when the metadata of every market of the registry carries the market's own address,
  the lookup of the market gives its protocol token with the metadata of the zero
  address as underlying token. This holds on the Compound base and on the Aave base.
\<close>

theorem underlying_failure_gives_zero_address:
  "(underlying p m = Inl e \<longrightarrow>
      supplyTokenAddress_compound p m = Inr ZERO_ADDRESS \<and>
      marketEntry_compound p m =
        await (getTokenMetadata p m) (\<lambda>pt.
          await (getTokenMetadata p ZERO_ADDRESS) (\<lambda>ut.
            Inr (address pt, \<lparr>protocolToken = pt, underlyingToken = ut\<rparr>)))) \<and>
   (UNDERLYING_ASSET_ADDRESS p m = Inl e \<longrightarrow>
      supplyTokenAddress_aave p m = Inr ZERO_ADDRESS \<and>
      marketEntry_aave p m =
        await (getTokenMetadata p m) (\<lambda>pt.
          await (getTokenMetadata p ZERO_ADDRESS) (\<lambda>ut.
            Inr (address pt, \<lparr>protocolToken = pt, underlyingToken = ut\<rparr>)))) \<and>
   buildMetadata_compound p this
     = buildMetadata_compound (p\<lparr>underlying := orZeroAddress (underlying p)\<rparr>) this \<and>
   buildMetadata_aave p
     = buildMetadata_aave
         (p\<lparr>UNDERLYING_ASSET_ADDRESS := orZeroAddress (UNDERLYING_ASSET_ADDRESS p)\<rparr>) \<and>
   (getAllMarkets p = Inr markets \<and> metadataCache this = None \<and>
    (\<forall>m\<in>set markets. \<exists>s pt ut. orZeroAddress (underlying p) m = Inr s \<and>
        getTokenMetadata p m = Inr pt \<and> getTokenMetadata p s = Inr ut) \<longrightarrow>
      (\<exists>md this'. buildMetadata_compound p this = (Inr md, this'))) \<and>
   (getMarketsCreated p = Inr markets \<and>
    (\<forall>m\<in>set markets. \<exists>s pt ut. orZeroAddress (UNDERLYING_ASSET_ADDRESS p) m = Inr s \<and>
        getTokenMetadata p m = Inr pt \<and> getTokenMetadata p s = Inr ut) \<longrightarrow>
      (\<exists>md. buildMetadata_aave p = Inr md)) \<and>
   (metadataCache this = None \<and> buildMetadata_compound p this = (Inr md, this') \<and>
    getAllMarkets p = Inr markets \<and> m \<in> set markets \<and> underlying p m = Inl e \<longrightarrow>
      (\<exists>pt ut. getTokenMetadata p m = Inr pt \<and> getTokenMetadata p ZERO_ADDRESS = Inr ut \<and>
         (\<exists>pm. fetchPoolMetadata (Inr md) (address pt) = Inr (Entry pm) \<and>
               (\<exists>m'\<in>set markets. marketEntry_compound p m' = Inr (address pt, pm))) \<and>
         ((\<forall>m'\<in>set markets. \<forall>t. getTokenMetadata p m' = Inr t \<longrightarrow> address t = m') \<longrightarrow>
            fetchPoolMetadata (Inr md) m
              = Inr (Entry \<lparr>protocolToken = pt, underlyingToken = ut\<rparr>)))) \<and>
   (buildMetadata_aave p = Inr amd \<and>
    getMarketsCreated p = Inr markets \<and> m \<in> set markets \<and>
    UNDERLYING_ASSET_ADDRESS p m = Inl e \<longrightarrow>
      (\<exists>pt ut. getTokenMetadata p m = Inr pt \<and> getTokenMetadata p ZERO_ADDRESS = Inr ut \<and>
         (\<exists>pm. fetchPoolMetadata (Inr amd) (address pt) = Inr (Entry pm) \<and>
               (\<exists>m'\<in>set markets. marketEntry_aave p m' = Inr (address pt, pm))) \<and>
         ((\<forall>m'\<in>set markets. \<forall>t. getTokenMetadata p m' = Inr t \<longrightarrow> address t = m') \<longrightarrow>
            fetchPoolMetadata (Inr amd) m
              = Inr (Entry \<lparr>protocolToken = pt, underlyingToken = ut\<rparr>))))"
proof (intro conjI impI)
  assume "underlying p m = Inl e"
  then show "supplyTokenAddress_compound p m = Inr ZERO_ADDRESS"
    by (simp add: supplyTokenAddress_compound_eq orZeroAddress_def)
next
  assume "underlying p m = Inl e"
  then show "marketEntry_compound p m =
        await (getTokenMetadata p m) (\<lambda>pt.
          await (getTokenMetadata p ZERO_ADDRESS) (\<lambda>ut.
            Inr (address pt, \<lparr>protocolToken = pt, underlyingToken = ut\<rparr>)))"
    by (rule marketEntry_compound_failed)
next
  assume "UNDERLYING_ASSET_ADDRESS p m = Inl e"
  then show "supplyTokenAddress_aave p m = Inr ZERO_ADDRESS"
    by (simp add: supplyTokenAddress_aave_eq orZeroAddress_def)
next
  assume "UNDERLYING_ASSET_ADDRESS p m = Inl e"
  then show "marketEntry_aave p m =
        await (getTokenMetadata p m) (\<lambda>pt.
          await (getTokenMetadata p ZERO_ADDRESS) (\<lambda>ut.
            Inr (address pt, \<lparr>protocolToken = pt, underlyingToken = ut\<rparr>)))"
    by (rule marketEntry_aave_failed)
next
  show "buildMetadata_compound p this
     = buildMetadata_compound (p\<lparr>underlying := orZeroAddress (underlying p)\<rparr>) this"
    by (simp add: buildMetadata_compound_recovered)
next
  show "buildMetadata_aave p
     = buildMetadata_aave
         (p\<lparr>UNDERLYING_ASSET_ADDRESS := orZeroAddress (UNDERLYING_ASSET_ADDRESS p)\<rparr>)"
    by (simp add: buildMetadata_aave_recovered)
next
  assume a: "getAllMarkets p = Inr markets \<and> metadataCache this = None \<and>
    (\<forall>m\<in>set markets. \<exists>s pt ut. orZeroAddress (underlying p) m = Inr s \<and>
        getTokenMetadata p m = Inr pt \<and> getTokenMetadata p s = Inr ut)"
  then obtain md where "enumerate_compound p = Inr md"
    using enumerate_compound_total[of p markets] by blast
  with a show "\<exists>md this'. buildMetadata_compound p this = (Inr md, this')"
    by (simp add: buildMetadata_compound_def)
next
  assume "getMarketsCreated p = Inr markets \<and>
    (\<forall>m\<in>set markets. \<exists>s pt ut. orZeroAddress (UNDERLYING_ASSET_ADDRESS p) m = Inr s \<and>
        getTokenMetadata p m = Inr pt \<and> getTokenMetadata p s = Inr ut)"
  then show "\<exists>md. buildMetadata_aave p = Inr md"
    using buildMetadata_aave_total[of p markets] by blast
next
  assume a: "metadataCache this = None \<and> buildMetadata_compound p this = (Inr md, this') \<and>
    getAllMarkets p = Inr markets \<and> m \<in> set markets \<and> underlying p m = Inl e"
  then have en: "enumerate_compound p = Inr md"
    by (auto simp: buildMetadata_compound_def split: sum.splits)
  from enumerate_compound_Inr_D[OF en, of markets] a obtain entries where
    ents: "list_all2 (\<lambda>m e. marketEntry_compound p m = Inr e)
             (completionOrder p (\<lambda>m. m) markets) entries" and
    md: "md = assignAll entries"
    by blast
  from a have m: "m \<in> set markets" and u: "underlying p m = Inl e" by simp_all
  show "\<exists>pt ut. getTokenMetadata p m = Inr pt \<and> getTokenMetadata p ZERO_ADDRESS = Inr ut \<and>
         (\<exists>pm. fetchPoolMetadata (Inr md) (address pt) = Inr (Entry pm) \<and>
               (\<exists>m'\<in>set markets. marketEntry_compound p m' = Inr (address pt, pm))) \<and>
         ((\<forall>m'\<in>set markets. \<forall>t. getTokenMetadata p m' = Inr t \<longrightarrow> address t = m') \<longrightarrow>
            fetchPoolMetadata (Inr md) m
              = Inr (Entry \<lparr>protocolToken = pt, underlyingToken = ut\<rparr>))"
    unfolding md
    by (rule failed_market_recorded[OF ents m marketEntry_compound_failed[OF u]
          marketEntry_compound_key])
next
  assume a: "buildMetadata_aave p = Inr amd \<and>
    getMarketsCreated p = Inr markets \<and> m \<in> set markets \<and>
    UNDERLYING_ASSET_ADDRESS p m = Inl e"
  then have b: "buildMetadata_aave p = Inr amd" by simp
  from buildMetadata_aave_Inr_D[OF b, of markets] a obtain entries where
    ents: "list_all2 (\<lambda>m e. marketEntry_aave p m = Inr e)
             (completionOrder p (\<lambda>m. m) markets) entries" and
    md: "amd = assignAll entries"
    by blast
  from a have m: "m \<in> set markets" and u: "UNDERLYING_ASSET_ADDRESS p m = Inl e" by simp_all
  show "\<exists>pt ut. getTokenMetadata p m = Inr pt \<and> getTokenMetadata p ZERO_ADDRESS = Inr ut \<and>
         (\<exists>pm. fetchPoolMetadata (Inr amd) (address pt) = Inr (Entry pm) \<and>
               (\<exists>m'\<in>set markets. marketEntry_aave p m' = Inr (address pt, pm))) \<and>
         ((\<forall>m'\<in>set markets. \<forall>t. getTokenMetadata p m' = Inr t \<longrightarrow> address t = m') \<longrightarrow>
            fetchPoolMetadata (Inr amd) m
              = Inr (Entry \<lparr>protocolToken = pt, underlyingToken = ut\<rparr>))"
    unfolding md
    by (rule failed_market_recorded[OF ents m marketEntry_aave_failed[OF u]
          marketEntry_aave_key])
qed

lemma assignAll_metadata0:
  "assignAll [(''0xA'', \<lparr>protocolToken = tokA, underlyingToken = undA\<rparr>),
              (''0xB'', \<lparr>protocolToken = tokB, underlyingToken = nativeCoin\<rparr>)] = metadata0"
  by (simp add: assignAll_def setProp_def emptyObject_def metadata0_def)

lemma buildMetadata_aave_chain0: "buildMetadata_aave chain0 = Inr metadata0"
proof -
  have a: "marketEntry_aave chain0 ''0xA''
             = Inr (''0xA'', \<lparr>protocolToken = tokA, underlyingToken = undA\<rparr>)"
    by (simp add: marketEntry_aave_def supplyTokenAddress_aave_def chain0_def tokA_def)
  have b: "marketEntry_aave chain0 ''0xB''
             = Inr (''0xB'', \<lparr>protocolToken = tokB, underlyingToken = nativeCoin\<rparr>)"
    by (simp add: marketEntry_aave_def supplyTokenAddress_aave_def chain0_def
        ZERO_ADDRESS_def tokB_def)
  have r: "getMarketsCreated chain0 = Inr [''0xA'', ''0xB'']" by (simp add: chain0_def)
  show ?thesis
    by (simp add: buildMetadata_aave_def r a b assignAll_metadata0)
qed

lemma enumerate_compound_chain0: "enumerate_compound chain0 = Inr metadata0"
proof -
  have a: "marketEntry_compound chain0 ''0xA''
             = Inr (''0xA'', \<lparr>protocolToken = tokA, underlyingToken = undA\<rparr>)"
    by (simp add: marketEntry_compound_def supplyTokenAddress_compound_def chain0_def tokA_def)
  have b: "marketEntry_compound chain0 ''0xB''
             = Inr (''0xB'', \<lparr>protocolToken = tokB, underlyingToken = nativeCoin\<rparr>)"
    by (simp add: marketEntry_compound_def supplyTokenAddress_compound_def chain0_def
        ZERO_ADDRESS_def tokB_def)
  have r: "getAllMarkets chain0 = Inr [''0xA'', ''0xB'']" by (simp add: chain0_def)
  show ?thesis
    by (simp add: enumerate_compound_def r a b assignAll_metadata0)
qed

lemma buildMetadata_compound_chain0:
  "buildMetadata_compound chain0 \<lparr>metadataCache = None\<rparr>
     = (Inr metadata0, \<lparr>metadataCache = Some metadata0\<rparr>)"
  by (simp add: buildMetadata_compound_def enumerate_compound_chain0)

theorem underlying_failure_gives_zero_address_witness:
  "underlying chain0 ''0xB'' = Inl CallException \<and>
   UNDERLYING_ASSET_ADDRESS chain0 ''0xB'' = Inl CallException \<and>
   supplyTokenAddress_compound chain0 ''0xB'' = Inr ZERO_ADDRESS \<and>
   supplyTokenAddress_aave chain0 ''0xB'' = Inr ZERO_ADDRESS \<and>
   marketEntry_compound chain0 ''0xB''
     = Inr (''0xB'', \<lparr>protocolToken = tokB, underlyingToken = nativeCoin\<rparr>) \<and>
   marketEntry_aave chain0 ''0xB''
     = Inr (''0xB'', \<lparr>protocolToken = tokB, underlyingToken = nativeCoin\<rparr>) \<and>
   getAllMarkets chain0 = Inr [''0xA'', ''0xB''] \<and>
   getMarketsCreated chain0 = Inr [''0xA'', ''0xB''] \<and>
   buildMetadata_compound chain0 \<lparr>metadataCache = None\<rparr>
     = (Inr metadata0, \<lparr>metadataCache = Some metadata0\<rparr>) \<and>
   buildMetadata_aave chain0 = Inr metadata0 \<and>
   getTokenMetadata chain0 ''0xB'' = Inr tokB \<and>
   getTokenMetadata chain0 ZERO_ADDRESS = Inr nativeCoin \<and>
   list_all (\<lambda>m'. map_sum id address (getTokenMetadata chain0 m') = Inr m') [''0xA'', ''0xB''] \<and>
   fetchPoolMetadata (Inr metadata0) ''0xB''
     = Inr (Entry \<lparr>protocolToken = tokB, underlyingToken = nativeCoin\<rparr>) \<and>
   address nativeCoin = ZERO_ADDRESS"
proof -
  note t = underlying_failure_gives_zero_address
    [of chain0 "''0xB''" CallException "\<lparr>metadataCache = None\<rparr>" "[''0xA'', ''0xB'']"
        metadata0 "\<lparr>metadataCache = Some metadata0\<rparr>" metadata0]
  have u: "underlying chain0 ''0xB'' = Inl CallException"
    "UNDERLYING_ASSET_ADDRESS chain0 ''0xB'' = Inl CallException"
    by (simp_all add: chain0_def)
  have g: "getTokenMetadata chain0 ''0xB'' = Inr tokB"
    "getTokenMetadata chain0 ZERO_ADDRESS = Inr nativeCoin"
    "getTokenMetadata chain0 ''0xA'' = Inr tokA"
    by (simp_all add: chain0_def ZERO_ADDRESS_def)
  have r: "getAllMarkets chain0 = Inr [''0xA'', ''0xB'']"
    "getMarketsCreated chain0 = Inr [''0xA'', ''0xB'']"
    by (simp_all add: chain0_def)
  have h1: "\<forall>m\<in>set [''0xA'', ''0xB'']. \<exists>s pt ut.
        orZeroAddress (underlying chain0) m = Inr s \<and>
        getTokenMetadata chain0 m = Inr pt \<and> getTokenMetadata chain0 s = Inr ut"
    by (simp add: orZeroAddress_def chain0_def ZERO_ADDRESS_def)
  have h2: "\<forall>m\<in>set [''0xA'', ''0xB'']. \<exists>s pt ut.
        orZeroAddress (UNDERLYING_ASSET_ADDRESS chain0) m = Inr s \<and>
        getTokenMetadata chain0 m = Inr pt \<and> getTokenMetadata chain0 s = Inr ut"
    by (simp add: orZeroAddress_def chain0_def ZERO_ADDRESS_def)
  have own: "\<forall>m'\<in>set [''0xA'', ''0xB'']. \<forall>t. getTokenMetadata chain0 m' = Inr t \<longrightarrow> address t = m'"
    by (simp add: g tokA_def tokB_def)
  have b: "address tokB = ''0xB''" "address tokA = ''0xA''" "address nativeCoin = ZERO_ADDRESS"
    by (simp_all add: tokB_def tokA_def nativeCoin_def)
  note c1 = t[THEN conjunct1, rule_format]
  note c2 = t[THEN conjunct2, THEN conjunct1, rule_format]
  note c7 = t[THEN conjunct2, THEN conjunct2, THEN conjunct2, THEN conjunct2, THEN conjunct2,
      THEN conjunct2, THEN conjunct1]
  have h: "metadataCache \<lparr>metadataCache = None\<rparr> = None \<and>
    buildMetadata_compound chain0 \<lparr>metadataCache = None\<rparr>
      = (Inr metadata0, \<lparr>metadataCache = Some metadata0\<rparr>) \<and>
    getAllMarkets chain0 = Inr [''0xA'', ''0xB''] \<and> ''0xB'' \<in> set [''0xA'', ''0xB''] \<and>
    underlying chain0 ''0xB'' = Inl CallException"
    using buildMetadata_compound_chain0 r u by simp
  from mp[OF c7 h] obtain pt ut where
    p1: "getTokenMetadata chain0 ''0xB'' = Inr pt" and
    p2: "getTokenMetadata chain0 ZERO_ADDRESS = Inr ut" and
    p3: "(\<forall>m'\<in>set [''0xA'', ''0xB'']. \<forall>t. getTokenMetadata chain0 m' = Inr t \<longrightarrow> address t = m') \<longrightarrow>
       fetchPoolMetadata (Inr metadata0) ''0xB''
         = Inr (Entry \<lparr>protocolToken = pt, underlyingToken = ut\<rparr>)"
    by iprover
  from p1 have pt: "pt = tokB" unfolding g(1) by simp
  from p2 have ut: "ut = nativeCoin" unfolding g(2) by simp
  from mp[OF p3 own] have rec: "fetchPoolMetadata (Inr metadata0) ''0xB''
     = Inr (Entry \<lparr>protocolToken = tokB, underlyingToken = nativeCoin\<rparr>)"
    unfolding pt ut .
  note x1 = c1[OF u(1)]
  note x2 = c2[OF u(2)]
  from x1 have s1: "supplyTokenAddress_compound chain0 ''0xB'' = Inr ZERO_ADDRESS"
    by (rule conjunct1)
  from x2 have s2: "supplyTokenAddress_aave chain0 ''0xB'' = Inr ZERO_ADDRESS"
    by (rule conjunct1)
  have e1: "marketEntry_compound chain0 ''0xB''
     = Inr (''0xB'', \<lparr>protocolToken = tokB, underlyingToken = nativeCoin\<rparr>)"
    unfolding x1[THEN conjunct2] g(1,2) await_simps b(1) by (rule refl)
  have e2: "marketEntry_aave chain0 ''0xB''
     = Inr (''0xB'', \<lparr>protocolToken = tokB, underlyingToken = nativeCoin\<rparr>)"
    unfolding x2[THEN conjunct2] g(1,2) await_simps b(1) by (rule refl)
  have l: "list_all (\<lambda>m'. map_sum id address (getTokenMetadata chain0 m') = Inr m') [''0xA'', ''0xB'']"
    using g b by simp
  show ?thesis
    by (simp only: u s1 s2 e1 e2 r buildMetadata_compound_chain0 buildMetadata_aave_chain0
        g(1,2) l rec b(3) simp_thms)
qed

section \<open>Metadata construction: the cache of the instance\<close>

lemma setOwn_keys: "set (map fst (setOwn m k v)) = insert k (set (map fst m))"
  by (induction m k v rule: setOwn.induct) auto

lemma setOwn_distinct: "distinct (map fst m) \<Longrightarrow> distinct (map fst (setOwn m k v))"
proof (induction m k v rule: setOwn.induct)
  case (1 k v)
  show ?case by simp
next
  case (2 k' v' m k v)
  then show ?case
    using setOwn_keys[of m k v] by (auto simp del: set_map)
qed

lemma setProp_distinct:
  "distinct (map fst (own obj)) \<Longrightarrow> distinct (map fst (own (setProp obj k v)))"
  by (simp add: setProp_def setOwn_distinct)

lemma foldl_setProp_distinct:
  "distinct (map fst (own obj)) \<Longrightarrow>
   distinct (map fst (own (foldl (\<lambda>obj (k, v). setProp obj k v) obj entries)))"
  by (induction entries arbitrary: obj) (auto simp: setProp_distinct)

lemma assignAll_distinct: "distinct (map fst (own (assignAll entries)))"
  by (simp add: assignAll_def foldl_setProp_distinct emptyObject_def)

lemma enumerate_compound_distinct:
  "enumerate_compound p = Inr md \<Longrightarrow> distinct (map fst (own md))"
  by (auto simp: enumerate_compound_def await_eq_Inr assignAll_distinct)

lemma buildMetadata_aave_distinct:
  "buildMetadata_aave p = Inr md \<Longrightarrow> distinct (map fst (own md))"
  by (auto simp: buildMetadata_aave_def await_eq_Inr assignAll_distinct)

lemma buildMetadata_vault_distinct:
  "buildMetadata_vault p = Inr md \<Longrightarrow> distinct (map fst (own md))"
  by (auto simp: buildMetadata_vault_def await_eq_Inr assignAll_distinct)

lemma buildMetadata_compound_cached:
  "metadataCache this = Some md \<Longrightarrow> buildMetadata_compound p this = (Inr md, this)"
  by (simp add: buildMetadata_compound_def)

lemma buildMetadata_compound_first:
  assumes "metadataCache this = None" and "buildMetadata_compound p this = (Inr md, this')"
  shows "enumerate_compound p = Inr md \<and> this' = this\<lparr>metadataCache := Some md\<rparr>"
  using assms by (auto simp: buildMetadata_compound_def split: sum.splits)

lemma buildMetadata_compound_failed:
  assumes "buildMetadata_compound p this = (Inl e, this')"
  shows "this' = this \<and> metadataCache this = None \<and> enumerate_compound p = Inl e"
  using assms by (auto simp: buildMetadata_compound_def split: option.splits sum.splits)

text \<open>
  Claim C6, as amended. On the Compound base, metadata construction is idempotent and
  the cache of the instance is filled at most once: a first call that returns a mapping
  stores it, the mapping has one entry per key, and every later call on the instance
  returns that mapping and leaves the instance as it is, whatever the chain holds by
  then (\<open>p2\<close> is any provider, also one whose registry call fails); a call that
  fails leaves the instance unchanged. The Aave base has no cache on the instance: its
  mapping has one entry per key as well, and every call reads the registry, so a call
  fails when the registry call fails. The vault adapter's mapping has one entry per key.
\<close>

theorem compound_metadata_cached_once:
  "(metadataCache this = None \<and> buildMetadata_compound p this = (Inr md, this') \<longrightarrow>
      metadataCache this' = Some md \<and> distinct (map fst (own md)) \<and>
      buildMetadata_compound p2 this' = (Inr md, this')) \<and>
   (metadataCache this = Some md \<longrightarrow> buildMetadata_compound p this = (Inr md, this)) \<and>
   (buildMetadata_compound p this = (Inl e, this') \<longrightarrow> this' = this) \<and>
   (buildMetadata_aave p = Inr md \<longrightarrow> distinct (map fst (own md))) \<and>
   (buildMetadata_vault p = Inr md \<longrightarrow> distinct (map fst (own md))) \<and>
   (getMarketsCreated p = Inl e \<longrightarrow> buildMetadata_aave p = Inl e)"
proof (intro conjI impI)
  assume a: "metadataCache this = None \<and> buildMetadata_compound p this = (Inr md, this')"
  then have e: "enumerate_compound p = Inr md" and t: "this' = this\<lparr>metadataCache := Some md\<rparr>"
    using buildMetadata_compound_first[of this p md this'] by auto
  show c: "metadataCache this' = Some md" using t by simp
  show "distinct (map fst (own md))" using e by (rule enumerate_compound_distinct)
  show "buildMetadata_compound p2 this' = (Inr md, this')"
    using c by (rule buildMetadata_compound_cached)
next
  assume "metadataCache this = Some md"
  then show "buildMetadata_compound p this = (Inr md, this)"
    by (rule buildMetadata_compound_cached)
next
  assume "buildMetadata_compound p this = (Inl e, this')"
  then show "this' = this" using buildMetadata_compound_failed by blast
next
  assume "buildMetadata_aave p = Inr md"
  then show "distinct (map fst (own md))" by (rule buildMetadata_aave_distinct)
next
  assume "buildMetadata_vault p = Inr md"
  then show "distinct (map fst (own md))" by (rule buildMetadata_vault_distinct)
next
  assume "getMarketsCreated p = Inl e"
  then show "buildMetadata_aave p = Inl e" by (simp add: buildMetadata_aave_def)
qed

lemma completionOrder_earlierChain [simp]: "completionOrder earlierChain addr xs = xs"
  by (rule completionOrder_same_time[where c = 0]) (simp add: earlierChain_def chain0_def)

lemma assignAll_metadataA:
  "assignAll [(''0xA'', \<lparr>protocolToken = tokA, underlyingToken = undA\<rparr>)] = metadataA"
  by (simp add: assignAll_def setProp_def emptyObject_def metadataA_def)

lemma enumerate_compound_earlier: "enumerate_compound earlierChain = Inr metadataA"
proof -
  have a: "marketEntry_compound earlierChain ''0xA''
             = Inr (''0xA'', \<lparr>protocolToken = tokA, underlyingToken = undA\<rparr>)"
    by (simp add: marketEntry_compound_def supplyTokenAddress_compound_def earlierChain_def
        chain0_def tokA_def)
  have r: "getAllMarkets earlierChain = Inr [''0xA'']" by (simp add: earlierChain_def)
  show ?thesis
    by (simp add: enumerate_compound_def r a assignAll_metadataA)
qed

lemma buildMetadata_aave_earlier: "buildMetadata_aave earlierChain = Inr metadataA"
proof -
  have a: "marketEntry_aave earlierChain ''0xA''
             = Inr (''0xA'', \<lparr>protocolToken = tokA, underlyingToken = undA\<rparr>)"
    by (simp add: marketEntry_aave_def supplyTokenAddress_aave_def earlierChain_def
        chain0_def tokA_def)
  have r: "getMarketsCreated earlierChain = Inr [''0xA'']" by (simp add: earlierChain_def)
  show ?thesis
    by (simp add: buildMetadata_aave_def r a assignAll_metadataA)
qed

lemma buildMetadata_vault_chain0: "buildMetadata_vault chain0 = Inr metadataA"
proof -
  have a: "vaultEntry chain0 \<lparr>vault = ''0xA'', underlyingAsset = ''0xUA''\<rparr>
             = Inr (''0xA'', \<lparr>protocolToken = tokA, underlyingToken = undA\<rparr>)"
    by (simp add: vaultEntry_def chain0_def)
  have r: "factoryQueryFilter chain0 = Inr [\<lparr>vault = ''0xA'', underlyingAsset = ''0xUA''\<rparr>]"
    by (simp add: chain0_def)
  show ?thesis
    by (simp add: buildMetadata_vault_def r a assignAll_metadataA)
qed

text \<open>
  The keys are assigned in the order in which the markets' callbacks finish: on the
  chain where market \<open>0xA\<close> is answered last, its key comes last.
\<close>

lemma buildMetadata_aave_laterAChain:
  "buildMetadata_aave laterAChain =
     Inr \<lparr>own = [(''0xB'', \<lparr>protocolToken = tokB, underlyingToken = nativeCoin\<rparr>),
                 (''0xA'', \<lparr>protocolToken = tokA, underlyingToken = undA\<rparr>)],
          inheritsFrom = None\<rparr>"
proof -
  have a: "marketEntry_aave laterAChain ''0xA''
             = Inr (''0xA'', \<lparr>protocolToken = tokA, underlyingToken = undA\<rparr>)"
    by (simp add: marketEntry_aave_def supplyTokenAddress_aave_def laterAChain_def
        chain0_def tokA_def)
  have b: "marketEntry_aave laterAChain ''0xB''
             = Inr (''0xB'', \<lparr>protocolToken = tokB, underlyingToken = nativeCoin\<rparr>)"
    by (simp add: marketEntry_aave_def supplyTokenAddress_aave_def laterAChain_def
        chain0_def ZERO_ADDRESS_def tokB_def)
  have r: "getMarketsCreated laterAChain = Inr [''0xA'', ''0xB'']"
    by (simp add: laterAChain_def chain0_def)
  have o: "completionOrder laterAChain (\<lambda>m. m) [''0xA'', ''0xB''] = [''0xB'', ''0xA'']"
    by (simp add: completionOrder_def laterAChain_def)
  show ?thesis
    by (simp add: buildMetadata_aave_def r o a b assignAll_def setProp_def emptyObject_def)
qed

theorem compound_metadata_cached_once_witness:
  "buildMetadata_compound earlierChain \<lparr>metadataCache = None\<rparr>
     = (Inr metadataA, \<lparr>metadataCache = Some metadataA\<rparr>) \<and>
   buildMetadata_compound chain0 \<lparr>metadataCache = Some metadataA\<rparr>
     = (Inr metadataA, \<lparr>metadataCache = Some metadataA\<rparr>) \<and>
   distinct (map fst (own metadataA)) \<and>
   buildMetadata_aave chain0 = Inr metadata0 \<and>
   distinct (map fst (own metadata0)) \<and>
   buildMetadata_vault chain0 = Inr metadataA \<and>
   buildMetadata_compound failingRegistryChain \<lparr>metadataCache = None\<rparr>
     = (Inl CallException, \<lparr>metadataCache = None\<rparr>) \<and>
   getMarketsCreated failingRegistryChain = Inl CallException \<and>
   buildMetadata_aave failingRegistryChain = Inl CallException"
proof -
  have first: "buildMetadata_compound earlierChain \<lparr>metadataCache = None\<rparr>
     = (Inr metadataA, \<lparr>metadataCache = Some metadataA\<rparr>)"
    by (simp add: buildMetadata_compound_def enumerate_compound_earlier)
  have failed: "buildMetadata_compound failingRegistryChain \<lparr>metadataCache = None\<rparr>
      = (Inl CallException, \<lparr>metadataCache = None\<rparr>)"
    by (simp add: buildMetadata_compound_def enumerate_compound_def failingRegistryChain_def)
  have reg: "getMarketsCreated failingRegistryChain = Inl CallException"
    by (simp add: failingRegistryChain_def)
  have none: "metadataCache \<lparr>metadataCache = None\<rparr> = None" by simp
  note a = compound_metadata_cached_once
    [of "\<lparr>metadataCache = None\<rparr>" earlierChain metadataA "\<lparr>metadataCache = Some metadataA\<rparr>"
        chain0 CallException]
  from a none first have second:
    "buildMetadata_compound chain0 \<lparr>metadataCache = Some metadataA\<rparr>
       = (Inr metadataA, \<lparr>metadataCache = Some metadataA\<rparr>)"
    and dA: "distinct (map fst (own metadataA))"
    by blast+
  note b = compound_metadata_cached_once
    [of "\<lparr>metadataCache = None\<rparr>" chain0 metadata0 "\<lparr>metadataCache = None\<rparr>" chain0 CallException]
  from b buildMetadata_aave_chain0 have d0: "distinct (map fst (own metadata0))" by blast
  note c = compound_metadata_cached_once
    [of "\<lparr>metadataCache = None\<rparr>" failingRegistryChain metadata0 "\<lparr>metadataCache = None\<rparr>"
        chain0 CallException]
  from c reg have fa: "buildMetadata_aave failingRegistryChain = Inl CallException" by blast
  from first second dA buildMetadata_aave_chain0 d0 buildMetadata_vault_chain0 failed reg fa
  show ?thesis by blast
qed

text \<open>
  Claim C6 as stated fails on the Aave base: called before and after market \<open>0xB\<close>
  is created, \<open>buildMetadata\<close> returns two different mappings, so the second call
  has enumerated the registry again.
\<close>

theorem aave_metadata_enumerated_again:
  "buildMetadata_aave earlierChain = Inr metadataA \<and>
   buildMetadata_aave chain0 = Inr metadata0 \<and>
   metadataA \<noteq> metadata0"
  by (simp add: buildMetadata_aave_earlier buildMetadata_aave_chain0 metadataA_def metadata0_def)

end
